theory Spec2Isabelle
  imports Main "HOL-Library.Word"
begin

section \<open>The pool endpoints of the beaconv1 RPC server (beacon-chain/rpc/beaconv1/pool.go)\<close>

text \<open>
  The file holds six handlers: a List and a Submit for attester slashings, proposer
  slashings and voluntary exits. Each handler is straight-line code over the server's
  collaborators: the chain info fetcher, the verification functions of package
  \<open>blocks\<close>, the translation functions of package \<open>migration\<close>, the two pools, the
  broadcaster and the feature configuration. None of the collaborators is defined in
  this file, so the handlers are modelled over arbitrary collaborators: their
  implementations are the fields of the record \<open>Server\<close>, the objects they act on are
  the fields of the record \<open>World\<close>, and every call a handler makes is appended to the
  call log of the world. The tracing span of each handler and the request context are
  passed along unchanged by the source and are left out, and so are the two handlers
  for plain attestations, which only return the error \<open>unimplemented\<close>. A handler
  is modelled as one sequential run: what other requests do to the pools meanwhile is
  the business of the pools.
\<close>

subsection \<open>Values\<close>

type_synonym uint64 = "64 word"
type_synonym bytes = "8 word list"

text \<open>A Go \<open>error\<close> value, as the \<open>%v\<close> verb prints it.\<close>

type_synonym go_error = string

text \<open>A pointer that may be nil, for the elements of a slice made by \<open>make\<close>.\<close>

type_synonym 'a ptr = "'a option"

text \<open>
  \<open>codes.Internal\<close> is the only gRPC code this file uses. A handler fails either with
  the status built by \<open>status.Errorf\<close> or, where it dereferences a nil pointer, with Go's
  run-time panic.
\<close>

datatype code = Internal

datatype error = Status code string | NilPointerDereference

text \<open>
  \<open>status.Errorf(c, "<prefix>%v", err)\<close>: every format string of the file is a prefix
  followed by the verb \<open>%v\<close> for the wrapped error.
\<close>

definition Errorf :: "code \<Rightarrow> string \<Rightarrow> go_error \<Rightarrow> error" where
  "Errorf c prefix err = Status c (prefix @ err)"

text \<open>
  Modelled from the spec: the generated protobuf types of package \<open>ethpb\<close> (eth/v1) are
  not among the sources. A voluntary exit request is "a validator index, an exit epoch,
  and a signature over that intent, embedded in a signed envelope". The handler reads
  \<open>req.Exit.ValidatorIndex\<close>; \<open>Exit\<close> is a message-typed field, which generated Go code
  holds by pointer, so it may be nil.
\<close>

record VoluntaryExit =
  Epoch :: uint64
  ValidatorIndex :: uint64

record SignedVoluntaryExit =
  Exit :: "VoluntaryExit ptr"
  Signature :: bytes

text \<open>
  The wire-format (eth/v1) slashing messages \<open>'asw\<close>, \<open>'psw\<close> and the internal (v1alpha1)
  messages \<open>'asa\<close>, \<open>'psa\<close>, \<open>'xa\<close> stay abstract. The broadcaster takes any protobuf
  message; the file hands it the three wire-format requests.
\<close>

datatype ('asw, 'psw) message =
  AttesterSlashingMsg 'asw
| ProposerSlashingMsg 'psw
| SignedVoluntaryExitMsg SignedVoluntaryExit

text \<open>The three response envelopes have the one field \<open>Data\<close>, a slice of pointers.\<close>

record 'a PoolResponse =
  Data :: "'a ptr list"

subsection \<open>Calls to collaborators\<close>

text \<open>
  One constructor for each function or method the handlers call, with the arguments of
  the call (\<open>'st\<close> is the head state, \<open>'val\<close> a read-only validator, \<open>'fk\<close> a fork).
\<close>

datatype (dead 'st, dead 'val, dead 'fk, dead 'asw, dead 'asa, dead 'psw, dead 'psa, dead 'xa) call =
  HeadStateCall
| ValidatorAtIndexReadOnlyCall 'st uint64
| V1AttSlashingToV1Alpha1Call 'asw
| V1Alpha1AttSlashingToV1Call 'asa
| V1ProposerSlashingToV1Alpha1Call 'psw
| V1Alpha1ProposerSlashingToV1Call 'psa
| V1ExitToV1Alpha1Call SignedVoluntaryExit
| V1Alpha1ExitToV1Call 'xa
| VerifyAttesterSlashingCall 'st 'asa
| VerifyProposerSlashingCall 'st 'psa
| VerifyExitAndSignatureCall 'val uint64 'fk 'xa bytes
| InsertAttesterSlashingCall 'st 'asa
| InsertProposerSlashingCall 'st 'psa
| InsertVoluntaryExitCall 'st 'xa
| PendingAttesterSlashingsCall 'st bool
| PendingProposerSlashingsCall 'st bool
| PendingExitsCall 'st uint64 bool
| BroadcastCall "('asw, 'psw) message"

fun is_HeadState :: "('st, 'val, 'fk, 'asw, 'asa, 'psw, 'psa, 'xa) call \<Rightarrow> bool" where
  "is_HeadState HeadStateCall = True"
| "is_HeadState _ = False"

fun is_Verify :: "('st, 'val, 'fk, 'asw, 'asa, 'psw, 'psa, 'xa) call \<Rightarrow> bool" where
  "is_Verify (VerifyAttesterSlashingCall _ _) = True"
| "is_Verify (VerifyProposerSlashingCall _ _) = True"
| "is_Verify (VerifyExitAndSignatureCall _ _ _ _ _) = True"
| "is_Verify _ = False"

fun is_Insert :: "('st, 'val, 'fk, 'asw, 'asa, 'psw, 'psa, 'xa) call \<Rightarrow> bool" where
  "is_Insert (InsertAttesterSlashingCall _ _) = True"
| "is_Insert (InsertProposerSlashingCall _ _) = True"
| "is_Insert (InsertVoluntaryExitCall _ _) = True"
| "is_Insert _ = False"

fun is_Broadcast :: "('st, 'val, 'fk, 'asw, 'asa, 'psw, 'psa, 'xa) call \<Rightarrow> bool" where
  "is_Broadcast (BroadcastCall _) = True"
| "is_Broadcast _ = False"

subsection \<open>The collaborators\<close>

text \<open>
  The implementations the handlers call, one field for each function. A method of a
  stateful object takes the object (\<open>'c\<close> the chain info fetcher, \<open>'sp\<close> the slashings
  pool, \<open>'ep\<close> the voluntary exits pool, \<open>'net\<close> the broadcaster) and, where it may
  change it, returns it. The verification functions of package \<open>blocks\<close>, the
  translations of package \<open>migration\<close>, the getters of the head state and the pending
  queries of the pools only return a value. A returned Go \<open>error\<close> is \<open>Some err\<close>
  (or \<open>Inl err\<close> beside a value), nil is \<open>None\<close>.
\<close>

record ('c, 'sp, 'ep, 'net, 'st, 'val, 'fk, 'asw, 'asa, 'psw, 'psa, 'xa) Server =
  HeadState :: "'c \<Rightarrow> (go_error + 'st) \<times> 'c"
  Slot :: "'st \<Rightarrow> uint64"
  Fork :: "'st \<Rightarrow> 'fk"
  GenesisValidatorRoot :: "'st \<Rightarrow> bytes"
  ValidatorAtIndexReadOnly :: "'st \<Rightarrow> uint64 \<Rightarrow> go_error + 'val"
  V1AttSlashingToV1Alpha1 :: "'asw \<Rightarrow> 'asa"
  V1Alpha1AttSlashingToV1 :: "'asa \<Rightarrow> 'asw"
  V1ProposerSlashingToV1Alpha1 :: "'psw \<Rightarrow> 'psa"
  V1Alpha1ProposerSlashingToV1 :: "'psa \<Rightarrow> 'psw"
  V1ExitToV1Alpha1 :: "SignedVoluntaryExit \<Rightarrow> 'xa"
  V1Alpha1ExitToV1 :: "'xa \<Rightarrow> SignedVoluntaryExit"
  VerifyAttesterSlashing :: "'st \<Rightarrow> 'asa \<Rightarrow> go_error option"
  VerifyProposerSlashing :: "'st \<Rightarrow> 'psa \<Rightarrow> go_error option"
  VerifyExitAndSignature :: "'val \<Rightarrow> uint64 \<Rightarrow> 'fk \<Rightarrow> 'xa \<Rightarrow> bytes \<Rightarrow> go_error option"
  InsertAttesterSlashing :: "'sp \<Rightarrow> 'st \<Rightarrow> 'asa \<Rightarrow> go_error option \<times> 'sp"
  InsertProposerSlashing :: "'sp \<Rightarrow> 'st \<Rightarrow> 'psa \<Rightarrow> go_error option \<times> 'sp"
  PendingAttesterSlashings :: "'sp \<Rightarrow> 'st \<Rightarrow> bool \<Rightarrow> 'asa list"
  PendingProposerSlashings :: "'sp \<Rightarrow> 'st \<Rightarrow> bool \<Rightarrow> 'psa list"
  InsertVoluntaryExit :: "'ep \<Rightarrow> 'st \<Rightarrow> 'xa \<Rightarrow> 'ep"
  PendingExits :: "'ep \<Rightarrow> 'st \<Rightarrow> uint64 \<Rightarrow> bool \<Rightarrow> 'xa list"
  Broadcast :: "'net \<Rightarrow> ('asw, 'psw) message \<Rightarrow> go_error option \<times> 'net"

text \<open>
  What the handlers act on: the four objects the server struct refers to, the
  process-wide flag \<open>featureconfig.Get().DisableBroadcastSlashings\<close>, and the log of
  the calls made so far.
\<close>

record ('c, 'sp, 'ep, 'net, 'st, 'val, 'fk, 'asw, 'asa, 'psw, 'psa, 'xa) World =
  ChainInfoFetcher :: 'c
  SlashingsPool :: 'sp
  VoluntaryExitsPool :: 'ep
  Broadcaster :: 'net
  DisableBroadcastSlashings :: bool
  calls :: "('st, 'val, 'fk, 'asw, 'asa, 'psw, 'psa, 'xa) call list"


text \<open>The calls made between two worlds \<open>w\<close> and \<open>w'\<close>, \<open>w'\<close> reached from \<open>w\<close>.\<close>

definition calls_made ::
  "('c, 'sp, 'ep, 'net, 'st, 'val, 'fk, 'asw, 'asa, 'psw, 'psa, 'xa) World \<Rightarrow> ('c, 'sp, 'ep, 'net, 'st, 'val, 'fk, 'asw, 'asa, 'psw, 'psa, 'xa) World \<Rightarrow> ('st, 'val, 'fk, 'asw, 'asa, 'psw, 'psa, 'xa) call list" where
  "calls_made w w' = drop (length (calls w)) (calls w')"

definition logCall ::
  "('st, 'val, 'fk, 'asw, 'asa, 'psw, 'psa, 'xa) call \<Rightarrow> ('c, 'sp, 'ep, 'net, 'st, 'val, 'fk, 'asw, 'asa, 'psw, 'psa, 'xa) World \<Rightarrow> ('c, 'sp, 'ep, 'net, 'st, 'val, 'fk, 'asw, 'asa, 'psw, 'psa, 'xa) World" where
  "logCall c w = w\<lparr>calls := calls w @ [c]\<rparr>"

subsection \<open>The call sites\<close>

text \<open>
  Each function below is one call of the source: it applies the collaborator to the
  object it acts on, stores the object it returns, and logs the call.
\<close>

definition call_HeadState ::
  "('c, 'sp, 'ep, 'net, 'st, 'val, 'fk, 'asw, 'asa, 'psw, 'psa, 'xa) Server \<Rightarrow> ('c, 'sp, 'ep, 'net, 'st, 'val, 'fk, 'asw, 'asa, 'psw, 'psa, 'xa) World \<Rightarrow> (go_error + 'st) \<times> ('c, 'sp, 'ep, 'net, 'st, 'val, 'fk, 'asw, 'asa, 'psw, 'psa, 'xa) World" where
  "call_HeadState bs w =
     (case HeadState bs (ChainInfoFetcher w) of
        (r, c') \<Rightarrow> (r, logCall HeadStateCall (w\<lparr>ChainInfoFetcher := c'\<rparr>)))"

definition call_ValidatorAtIndexReadOnly ::
  "('c, 'sp, 'ep, 'net, 'st, 'val, 'fk, 'asw, 'asa, 'psw, 'psa, 'xa) Server \<Rightarrow> 'st \<Rightarrow> uint64 \<Rightarrow> ('c, 'sp, 'ep, 'net, 'st, 'val, 'fk, 'asw, 'asa, 'psw, 'psa, 'xa) World \<Rightarrow> (go_error + 'val) \<times> ('c, 'sp, 'ep, 'net, 'st, 'val, 'fk, 'asw, 'asa, 'psw, 'psa, 'xa) World" where
  "call_ValidatorAtIndexReadOnly bs headState idx w =
     (ValidatorAtIndexReadOnly bs headState idx,
      logCall (ValidatorAtIndexReadOnlyCall headState idx) w)"

definition call_V1AttSlashingToV1Alpha1 ::
  "('c, 'sp, 'ep, 'net, 'st, 'val, 'fk, 'asw, 'asa, 'psw, 'psa, 'xa) Server \<Rightarrow> 'asw \<Rightarrow> ('c, 'sp, 'ep, 'net, 'st, 'val, 'fk, 'asw, 'asa, 'psw, 'psa, 'xa) World \<Rightarrow> 'asa \<times> ('c, 'sp, 'ep, 'net, 'st, 'val, 'fk, 'asw, 'asa, 'psw, 'psa, 'xa) World" where
  "call_V1AttSlashingToV1Alpha1 bs req w =
     (V1AttSlashingToV1Alpha1 bs req, logCall (V1AttSlashingToV1Alpha1Call req) w)"

definition call_V1ProposerSlashingToV1Alpha1 ::
  "('c, 'sp, 'ep, 'net, 'st, 'val, 'fk, 'asw, 'asa, 'psw, 'psa, 'xa) Server \<Rightarrow> 'psw \<Rightarrow> ('c, 'sp, 'ep, 'net, 'st, 'val, 'fk, 'asw, 'asa, 'psw, 'psa, 'xa) World \<Rightarrow> 'psa \<times> ('c, 'sp, 'ep, 'net, 'st, 'val, 'fk, 'asw, 'asa, 'psw, 'psa, 'xa) World" where
  "call_V1ProposerSlashingToV1Alpha1 bs req w =
     (V1ProposerSlashingToV1Alpha1 bs req, logCall (V1ProposerSlashingToV1Alpha1Call req) w)"

definition call_V1ExitToV1Alpha1 ::
  "('c, 'sp, 'ep, 'net, 'st, 'val, 'fk, 'asw, 'asa, 'psw, 'psa, 'xa) Server \<Rightarrow> SignedVoluntaryExit \<Rightarrow> ('c, 'sp, 'ep, 'net, 'st, 'val, 'fk, 'asw, 'asa, 'psw, 'psa, 'xa) World \<Rightarrow> 'xa \<times> ('c, 'sp, 'ep, 'net, 'st, 'val, 'fk, 'asw, 'asa, 'psw, 'psa, 'xa) World" where
  "call_V1ExitToV1Alpha1 bs req w =
     (V1ExitToV1Alpha1 bs req, logCall (V1ExitToV1Alpha1Call req) w)"

definition call_VerifyAttesterSlashing ::
  "('c, 'sp, 'ep, 'net, 'st, 'val, 'fk, 'asw, 'asa, 'psw, 'psa, 'xa) Server \<Rightarrow> 'st \<Rightarrow> 'asa \<Rightarrow> ('c, 'sp, 'ep, 'net, 'st, 'val, 'fk, 'asw, 'asa, 'psw, 'psa, 'xa) World \<Rightarrow> go_error option \<times> ('c, 'sp, 'ep, 'net, 'st, 'val, 'fk, 'asw, 'asa, 'psw, 'psa, 'xa) World" where
  "call_VerifyAttesterSlashing bs headState alphaSlashing w =
     (VerifyAttesterSlashing bs headState alphaSlashing,
      logCall (VerifyAttesterSlashingCall headState alphaSlashing) w)"

definition call_VerifyProposerSlashing ::
  "('c, 'sp, 'ep, 'net, 'st, 'val, 'fk, 'asw, 'asa, 'psw, 'psa, 'xa) Server \<Rightarrow> 'st \<Rightarrow> 'psa \<Rightarrow> ('c, 'sp, 'ep, 'net, 'st, 'val, 'fk, 'asw, 'asa, 'psw, 'psa, 'xa) World \<Rightarrow> go_error option \<times> ('c, 'sp, 'ep, 'net, 'st, 'val, 'fk, 'asw, 'asa, 'psw, 'psa, 'xa) World" where
  "call_VerifyProposerSlashing bs headState alphaSlashing w =
     (VerifyProposerSlashing bs headState alphaSlashing,
      logCall (VerifyProposerSlashingCall headState alphaSlashing) w)"

definition call_VerifyExitAndSignature ::
  "('c, 'sp, 'ep, 'net, 'st, 'val, 'fk, 'asw, 'asa, 'psw, 'psa, 'xa) Server \<Rightarrow> 'val \<Rightarrow> uint64 \<Rightarrow> 'fk \<Rightarrow> 'xa \<Rightarrow> bytes \<Rightarrow> ('c, 'sp, 'ep, 'net, 'st, 'val, 'fk, 'asw, 'asa, 'psw, 'psa, 'xa) World \<Rightarrow> go_error option \<times> ('c, 'sp, 'ep, 'net, 'st, 'val, 'fk, 'asw, 'asa, 'psw, 'psa, 'xa) World" where
  "call_VerifyExitAndSignature bs validator currentSlot fork alphaExit genesisRoot w =
     (VerifyExitAndSignature bs validator currentSlot fork alphaExit genesisRoot,
      logCall (VerifyExitAndSignatureCall validator currentSlot fork alphaExit genesisRoot) w)"

definition call_InsertAttesterSlashing ::
  "('c, 'sp, 'ep, 'net, 'st, 'val, 'fk, 'asw, 'asa, 'psw, 'psa, 'xa) Server \<Rightarrow> 'st \<Rightarrow> 'asa \<Rightarrow> ('c, 'sp, 'ep, 'net, 'st, 'val, 'fk, 'asw, 'asa, 'psw, 'psa, 'xa) World \<Rightarrow> go_error option \<times> ('c, 'sp, 'ep, 'net, 'st, 'val, 'fk, 'asw, 'asa, 'psw, 'psa, 'xa) World" where
  "call_InsertAttesterSlashing bs headState alphaSlashing w =
     (case InsertAttesterSlashing bs (SlashingsPool w) headState alphaSlashing of
        (r, p') \<Rightarrow>
          (r, logCall (InsertAttesterSlashingCall headState alphaSlashing)
                (w\<lparr>SlashingsPool := p'\<rparr>)))"

definition call_InsertProposerSlashing ::
  "('c, 'sp, 'ep, 'net, 'st, 'val, 'fk, 'asw, 'asa, 'psw, 'psa, 'xa) Server \<Rightarrow> 'st \<Rightarrow> 'psa \<Rightarrow> ('c, 'sp, 'ep, 'net, 'st, 'val, 'fk, 'asw, 'asa, 'psw, 'psa, 'xa) World \<Rightarrow> go_error option \<times> ('c, 'sp, 'ep, 'net, 'st, 'val, 'fk, 'asw, 'asa, 'psw, 'psa, 'xa) World" where
  "call_InsertProposerSlashing bs headState alphaSlashing w =
     (case InsertProposerSlashing bs (SlashingsPool w) headState alphaSlashing of
        (r, p') \<Rightarrow>
          (r, logCall (InsertProposerSlashingCall headState alphaSlashing)
                (w\<lparr>SlashingsPool := p'\<rparr>)))"

text \<open>\<open>InsertVoluntaryExit\<close> has no result.\<close>

definition call_InsertVoluntaryExit ::
  "('c, 'sp, 'ep, 'net, 'st, 'val, 'fk, 'asw, 'asa, 'psw, 'psa, 'xa) Server \<Rightarrow> 'st \<Rightarrow> 'xa \<Rightarrow> ('c, 'sp, 'ep, 'net, 'st, 'val, 'fk, 'asw, 'asa, 'psw, 'psa, 'xa) World \<Rightarrow> ('c, 'sp, 'ep, 'net, 'st, 'val, 'fk, 'asw, 'asa, 'psw, 'psa, 'xa) World" where
  "call_InsertVoluntaryExit bs headState alphaExit w =
     logCall (InsertVoluntaryExitCall headState alphaExit)
       (w\<lparr>VoluntaryExitsPool := InsertVoluntaryExit bs (VoluntaryExitsPool w) headState alphaExit\<rparr>)"

definition call_PendingAttesterSlashings ::
  "('c, 'sp, 'ep, 'net, 'st, 'val, 'fk, 'asw, 'asa, 'psw, 'psa, 'xa) Server \<Rightarrow> 'st \<Rightarrow> bool \<Rightarrow> ('c, 'sp, 'ep, 'net, 'st, 'val, 'fk, 'asw, 'asa, 'psw, 'psa, 'xa) World \<Rightarrow> 'asa list \<times> ('c, 'sp, 'ep, 'net, 'st, 'val, 'fk, 'asw, 'asa, 'psw, 'psa, 'xa) World" where
  "call_PendingAttesterSlashings bs headState noLimit w =
     (PendingAttesterSlashings bs (SlashingsPool w) headState noLimit,
      logCall (PendingAttesterSlashingsCall headState noLimit) w)"

definition call_PendingProposerSlashings ::
  "('c, 'sp, 'ep, 'net, 'st, 'val, 'fk, 'asw, 'asa, 'psw, 'psa, 'xa) Server \<Rightarrow> 'st \<Rightarrow> bool \<Rightarrow> ('c, 'sp, 'ep, 'net, 'st, 'val, 'fk, 'asw, 'asa, 'psw, 'psa, 'xa) World \<Rightarrow> 'psa list \<times> ('c, 'sp, 'ep, 'net, 'st, 'val, 'fk, 'asw, 'asa, 'psw, 'psa, 'xa) World" where
  "call_PendingProposerSlashings bs headState noLimit w =
     (PendingProposerSlashings bs (SlashingsPool w) headState noLimit,
      logCall (PendingProposerSlashingsCall headState noLimit) w)"

definition call_PendingExits ::
  "('c, 'sp, 'ep, 'net, 'st, 'val, 'fk, 'asw, 'asa, 'psw, 'psa, 'xa) Server \<Rightarrow> 'st \<Rightarrow> uint64 \<Rightarrow> bool \<Rightarrow> ('c, 'sp, 'ep, 'net, 'st, 'val, 'fk, 'asw, 'asa, 'psw, 'psa, 'xa) World \<Rightarrow> 'xa list \<times> ('c, 'sp, 'ep, 'net, 'st, 'val, 'fk, 'asw, 'asa, 'psw, 'psa, 'xa) World" where
  "call_PendingExits bs headState slot noLimit w =
     (PendingExits bs (VoluntaryExitsPool w) headState slot noLimit,
      logCall (PendingExitsCall headState slot noLimit) w)"

definition call_Broadcast ::
  "('c, 'sp, 'ep, 'net, 'st, 'val, 'fk, 'asw, 'asa, 'psw, 'psa, 'xa) Server \<Rightarrow> ('asw, 'psw) message \<Rightarrow> ('c, 'sp, 'ep, 'net, 'st, 'val, 'fk, 'asw, 'asa, 'psw, 'psa, 'xa) World \<Rightarrow> go_error option \<times> ('c, 'sp, 'ep, 'net, 'st, 'val, 'fk, 'asw, 'asa, 'psw, 'psa, 'xa) World" where
  "call_Broadcast bs msg w =
     (case Broadcast bs (Broadcaster w) msg of
        (r, n') \<Rightarrow> (r, logCall (BroadcastCall msg) (w\<lparr>Broadcaster := n'\<rparr>)))"

text \<open>
  The loop of the three List handlers,
  \<^verbatim>\<open>for i, s := range source { out[i] = migration.F(s) }\<close>,
  from index \<open>i\<close> on: \<open>f\<close> is the translation and \<open>ev\<close> the log entry of its call.
  Every index the loop writes is within \<open>out\<close>, which is made with the length of
  \<open>source\<close>.
\<close>

fun range_loop ::
  "('a \<Rightarrow> 'b) \<Rightarrow> ('a \<Rightarrow> ('st, 'val, 'fk, 'asw, 'asa, 'psw, 'psa, 'xa) call) \<Rightarrow> nat \<Rightarrow> 'a list \<Rightarrow> 'b ptr list \<Rightarrow> ('c, 'sp, 'ep, 'net, 'st, 'val, 'fk, 'asw, 'asa, 'psw, 'psa, 'xa) World \<Rightarrow> 'b ptr list \<times> ('c, 'sp, 'ep, 'net, 'st, 'val, 'fk, 'asw, 'asa, 'psw, 'psa, 'xa) World" where
  "range_loop f ev i [] out w = (out, w)"
| "range_loop f ev i (s # source) out w =
     range_loop f ev (Suc i) source (out[i := Some (f s)]) (logCall (ev s) w)"

subsection \<open>The handlers\<close>

definition ListPoolAttesterSlashings ::
  "('c, 'sp, 'ep, 'net, 'st, 'val, 'fk, 'asw, 'asa, 'psw, 'psa, 'xa) Server \<Rightarrow> ('c, 'sp, 'ep, 'net, 'st, 'val, 'fk, 'asw, 'asa, 'psw, 'psa, 'xa) World \<Rightarrow> (error + 'asw PoolResponse) \<times> ('c, 'sp, 'ep, 'net, 'st, 'val, 'fk, 'asw, 'asa, 'psw, 'psa, 'xa) World" where
  "ListPoolAttesterSlashings bs w =
     (case call_HeadState bs w of
        (Inl err, w1) \<Rightarrow> (Inl (Errorf Internal ''Could not get head state: '' err), w1)
      | (Inr headState, w1) \<Rightarrow>
          (case call_PendingAttesterSlashings bs headState True w1 of
             (sourceSlashings, w2) \<Rightarrow>
               (case range_loop (V1Alpha1AttSlashingToV1 bs) V1Alpha1AttSlashingToV1Call 0
                       sourceSlashings (replicate (length sourceSlashings) None) w2 of
                  (slashings, w3) \<Rightarrow> (Inr \<lparr>Data = slashings\<rparr>, w3))))"

definition SubmitAttesterSlashing ::
  "('c, 'sp, 'ep, 'net, 'st, 'val, 'fk, 'asw, 'asa, 'psw, 'psa, 'xa) Server \<Rightarrow> 'asw \<Rightarrow> ('c, 'sp, 'ep, 'net, 'st, 'val, 'fk, 'asw, 'asa, 'psw, 'psa, 'xa) World \<Rightarrow> (error + unit) \<times> ('c, 'sp, 'ep, 'net, 'st, 'val, 'fk, 'asw, 'asa, 'psw, 'psa, 'xa) World" where
  "SubmitAttesterSlashing bs req w =
     (case call_HeadState bs w of
        (Inl err, w1) \<Rightarrow> (Inl (Errorf Internal ''Could not get head state: '' err), w1)
      | (Inr headState, w1) \<Rightarrow>
          (case call_V1AttSlashingToV1Alpha1 bs req w1 of
             (alphaSlashing, w2) \<Rightarrow>
               (case call_VerifyAttesterSlashing bs headState alphaSlashing w2 of
                  (Some err, w3) \<Rightarrow>
                    (Inl (Errorf Internal ''Invalid attester slashing: '' err), w3)
                | (None, w3) \<Rightarrow>
                    (case call_InsertAttesterSlashing bs headState alphaSlashing w3 of
                       (Some err, w4) \<Rightarrow>
                         (Inl (Errorf Internal
                                 ''Could not insert attester slashing into pool: '' err), w4)
                     | (None, w4) \<Rightarrow>
                         (if \<not> DisableBroadcastSlashings w4 then
                            (case call_Broadcast bs (AttesterSlashingMsg req) w4 of
                               (Some err, w5) \<Rightarrow>
                                 (Inl (Errorf Internal
                                         ''Could not broadcast slashing object: '' err), w5)
                             | (None, w5) \<Rightarrow> (Inr (), w5))
                          else (Inr (), w4))))))"

definition ListPoolProposerSlashings ::
  "('c, 'sp, 'ep, 'net, 'st, 'val, 'fk, 'asw, 'asa, 'psw, 'psa, 'xa) Server \<Rightarrow> ('c, 'sp, 'ep, 'net, 'st, 'val, 'fk, 'asw, 'asa, 'psw, 'psa, 'xa) World \<Rightarrow> (error + 'psw PoolResponse) \<times> ('c, 'sp, 'ep, 'net, 'st, 'val, 'fk, 'asw, 'asa, 'psw, 'psa, 'xa) World" where
  "ListPoolProposerSlashings bs w =
     (case call_HeadState bs w of
        (Inl err, w1) \<Rightarrow> (Inl (Errorf Internal ''Could not get head state: '' err), w1)
      | (Inr headState, w1) \<Rightarrow>
          (case call_PendingProposerSlashings bs headState True w1 of
             (sourceSlashings, w2) \<Rightarrow>
               (case range_loop (V1Alpha1ProposerSlashingToV1 bs) V1Alpha1ProposerSlashingToV1Call 0
                       sourceSlashings (replicate (length sourceSlashings) None) w2 of
                  (slashings, w3) \<Rightarrow> (Inr \<lparr>Data = slashings\<rparr>, w3))))"

definition SubmitProposerSlashing ::
  "('c, 'sp, 'ep, 'net, 'st, 'val, 'fk, 'asw, 'asa, 'psw, 'psa, 'xa) Server \<Rightarrow> 'psw \<Rightarrow> ('c, 'sp, 'ep, 'net, 'st, 'val, 'fk, 'asw, 'asa, 'psw, 'psa, 'xa) World \<Rightarrow> (error + unit) \<times> ('c, 'sp, 'ep, 'net, 'st, 'val, 'fk, 'asw, 'asa, 'psw, 'psa, 'xa) World" where
  "SubmitProposerSlashing bs req w =
     (case call_HeadState bs w of
        (Inl err, w1) \<Rightarrow> (Inl (Errorf Internal ''Could not get head state: '' err), w1)
      | (Inr headState, w1) \<Rightarrow>
          (case call_V1ProposerSlashingToV1Alpha1 bs req w1 of
             (alphaSlashing, w2) \<Rightarrow>
               (case call_VerifyProposerSlashing bs headState alphaSlashing w2 of
                  (Some err, w3) \<Rightarrow>
                    (Inl (Errorf Internal ''Invalid proposer slashing: '' err), w3)
                | (None, w3) \<Rightarrow>
                    (case call_InsertProposerSlashing bs headState alphaSlashing w3 of
                       (Some err, w4) \<Rightarrow>
                         (Inl (Errorf Internal
                                 ''Could not insert proposer slashing into pool: '' err), w4)
                     | (None, w4) \<Rightarrow>
                         (if \<not> DisableBroadcastSlashings w4 then
                            (case call_Broadcast bs (ProposerSlashingMsg req) w4 of
                               (Some err, w5) \<Rightarrow>
                                 (Inl (Errorf Internal
                                         ''Could not broadcast slashing object: '' err), w5)
                             | (None, w5) \<Rightarrow> (Inr (), w5))
                          else (Inr (), w4))))))"

definition ListPoolVoluntaryExits ::
  "('c, 'sp, 'ep, 'net, 'st, 'val, 'fk, 'asw, 'asa, 'psw, 'psa, 'xa) Server \<Rightarrow> ('c, 'sp, 'ep, 'net, 'st, 'val, 'fk, 'asw, 'asa, 'psw, 'psa, 'xa) World \<Rightarrow> (error + SignedVoluntaryExit PoolResponse) \<times> ('c, 'sp, 'ep, 'net, 'st, 'val, 'fk, 'asw, 'asa, 'psw, 'psa, 'xa) World" where
  "ListPoolVoluntaryExits bs w =
     (case call_HeadState bs w of
        (Inl err, w1) \<Rightarrow> (Inl (Errorf Internal ''Could not get head state: '' err), w1)
      | (Inr headState, w1) \<Rightarrow>
          (case call_PendingExits bs headState (Slot bs headState) True w1 of
             (sourceExits, w2) \<Rightarrow>
               (case range_loop (V1Alpha1ExitToV1 bs) V1Alpha1ExitToV1Call 0
                       sourceExits (replicate (length sourceExits) None) w2 of
                  (exits, w3) \<Rightarrow> (Inr \<lparr>Data = exits\<rparr>, w3))))"

text \<open>
  \<open>req.Exit.ValidatorIndex\<close> dereferences \<open>req.Exit\<close> while the argument of the lookup is
  evaluated: on a request without \<open>Exit\<close> the handler panics there, before the lookup
  is called.
\<close>

definition SubmitVoluntaryExit ::
  "('c, 'sp, 'ep, 'net, 'st, 'val, 'fk, 'asw, 'asa, 'psw, 'psa, 'xa) Server \<Rightarrow> SignedVoluntaryExit \<Rightarrow> ('c, 'sp, 'ep, 'net, 'st, 'val, 'fk, 'asw, 'asa, 'psw, 'psa, 'xa) World \<Rightarrow> (error + unit) \<times> ('c, 'sp, 'ep, 'net, 'st, 'val, 'fk, 'asw, 'asa, 'psw, 'psa, 'xa) World" where
  "SubmitVoluntaryExit bs req w =
     (case call_HeadState bs w of
        (Inl err, w1) \<Rightarrow> (Inl (Errorf Internal ''Could not get head state: '' err), w1)
      | (Inr headState, w1) \<Rightarrow>
          (case Exit req of
             None \<Rightarrow> (Inl NilPointerDereference, w1)
           | Some exit \<Rightarrow>
               (case call_ValidatorAtIndexReadOnly bs headState (ValidatorIndex exit) w1 of
                  (Inl err, w2) \<Rightarrow>
                    (Inl (Errorf Internal ''Could not get exiting validator: '' err), w2)
                | (Inr validator, w2) \<Rightarrow>
                    (case call_V1ExitToV1Alpha1 bs req w2 of
                       (alphaExit, w3) \<Rightarrow>
                         (case call_VerifyExitAndSignature bs validator (Slot bs headState)
                                 (Fork bs headState) alphaExit (GenesisValidatorRoot bs headState) w3 of
                            (Some err, w4) \<Rightarrow>
                              (Inl (Errorf Internal ''Invalid voluntary exit: '' err), w4)
                          | (None, w4) \<Rightarrow>
                              (let w5 = call_InsertVoluntaryExit bs headState alphaExit w4 in
                               (case call_Broadcast bs (SignedVoluntaryExitMsg req) w5 of
                                  (Some err, w6) \<Rightarrow>
                                    (Inl (Errorf Internal
                                            ''Could not broadcast voluntary exit object: '' err), w6)
                                | (None, w6) \<Rightarrow> (Inr (), w6))))))))"

subsection \<open>Order of the calls in a log\<close>

text \<open>
  Every broadcast call of the log comes after an insertion call of the log;
  \<open>inserted\<close> tells whether an insertion was seen before the log starts.
\<close>

fun broadcast_after_insert ::
  "bool \<Rightarrow> ('st, 'val, 'fk, 'asw, 'asa, 'psw, 'psa, 'xa) call list \<Rightarrow> bool" where
  "broadcast_after_insert inserted [] = True"
| "broadcast_after_insert inserted (c # cs) =
     (if is_Broadcast c then inserted \<and> broadcast_after_insert inserted cs
      else broadcast_after_insert (inserted \<or> is_Insert c) cs)"

subsection \<open>A small instance of the collaborators\<close>

text \<open>
  For evaluating the handlers on concrete inputs. The chain info fetcher holds the heads
  it will report, one for each fetch, and fails when none is left; a head state is the
  size of its validator registry. A slashing is a number, translated by adding an
  offset, and is valid when it names a validator of the registry. The slashings pool
  holds two lists and refuses a duplicate; the exits pool is a list. The broadcaster is
  a pair of a link status and the messages sent, and fails when the link is down.
\<close>

type_synonym mock_exit = "uint64 \<times> uint64 \<times> bytes"

definition mock_server ::
  "(nat list, nat list \<times> nat list, mock_exit list, bool \<times> (nat, nat) message list,
    nat, nat, nat, nat, nat, nat, nat, mock_exit) Server" where
  "mock_server = \<lparr>
     HeadState = (\<lambda>c. case c of [] \<Rightarrow> (Inl ''no head'', []) | h # t \<Rightarrow> (Inr h, t)),
     Slot = (\<lambda>st. of_nat st),
     Fork = (\<lambda>st. 0),
     GenesisValidatorRoot = (\<lambda>st. []),
     ValidatorAtIndexReadOnly =
       (\<lambda>st idx. if unat idx < st then Inr (unat idx) else Inl ''index out of range''),
     V1AttSlashingToV1Alpha1 = (\<lambda>n. n + 100),
     V1Alpha1AttSlashingToV1 = (\<lambda>n. n - 100),
     V1ProposerSlashingToV1Alpha1 = (\<lambda>n. n + 200),
     V1Alpha1ProposerSlashingToV1 = (\<lambda>n. n - 200),
     V1ExitToV1Alpha1 =
       (\<lambda>req. case Exit req of
                 None \<Rightarrow> (0, 0, [])
               | Some e \<Rightarrow> (Epoch e, ValidatorIndex e, Signature req)),
     V1Alpha1ExitToV1 =
       (\<lambda>(ep, idx, sg). \<lparr>Exit = Some \<lparr>Epoch = ep, ValidatorIndex = idx\<rparr>, Signature = sg\<rparr>),
     VerifyAttesterSlashing =
       (\<lambda>st a. if a < 100 + st then None else Some ''unknown validator''),
     VerifyProposerSlashing =
       (\<lambda>st a. if a < 200 + st then None else Some ''unknown validator''),
     VerifyExitAndSignature =
       (\<lambda>v slot fk (ep, idx, sg) root. if sg = [] then Some ''no signature'' else None),
     InsertAttesterSlashing =
       (\<lambda>(atts, props) st a.
          if a \<in> set atts then (Some ''duplicate'', (atts, props))
          else (None, (atts @ [a], props))),
     InsertProposerSlashing =
       (\<lambda>(atts, props) st a.
          if a \<in> set props then (Some ''duplicate'', (atts, props))
          else (None, (atts, props @ [a]))),
     PendingAttesterSlashings = (\<lambda>(atts, props) st noLimit. if noLimit then atts else take 1 atts),
     PendingProposerSlashings = (\<lambda>(atts, props) st noLimit. if noLimit then props else take 1 props),
     InsertVoluntaryExit = (\<lambda>exits st x. exits @ [x]),
     PendingExits = (\<lambda>exits st slot noLimit. if noLimit then exits else take 1 exits),
     Broadcast =
       (\<lambda>(up, sent) m. if up then (None, (up, sent @ [m])) else (Some ''no peers'', (up, sent)))
   \<rparr>"

text \<open>
  A world of the instance: the heads to come, the two lists of the slashings pool, whether
  the link is up, and the flag; no exit is pending, nothing was sent and nothing called.
\<close>

definition mock_world ::
  "nat list \<Rightarrow> nat list \<times> nat list \<Rightarrow> bool \<Rightarrow> bool \<Rightarrow>
   (nat list, nat list \<times> nat list, mock_exit list, bool \<times> (nat, nat) message list,
    nat, nat, nat, nat, nat, nat, nat, mock_exit) World" where
  "mock_world heads pool up flag = \<lparr>
     ChainInfoFetcher = heads,
     SlashingsPool = pool,
     VoluntaryExitsPool = [],
     Broadcaster = (up, []),
     DisableBroadcastSlashings = flag,
     calls = []
   \<rparr>"

text \<open>A signed exit of validator \<open>idx\<close> with signature \<open>sg\<close>, and a request without \<open>Exit\<close>.\<close>

definition mock_exit_request :: "uint64 \<Rightarrow> bytes \<Rightarrow> SignedVoluntaryExit" where
  "mock_exit_request idx sg = \<lparr>Exit = Some \<lparr>Epoch = 0, ValidatorIndex = idx\<rparr>, Signature = sg\<rparr>"

definition mock_empty_request :: SignedVoluntaryExit where
  "mock_empty_request = \<lparr>Exit = None, Signature = []\<rparr>"

text \<open>
  Two variants of the instance. The pending queries of the first list only the objects
  whose validator is in the registry of the head they are asked with, as a pool does
  that filters what it reports by the state it is given. The exits pool of the second
  admits nothing.
\<close>

definition head_filtering_server ::
  "(nat list, nat list \<times> nat list, mock_exit list, bool \<times> (nat, nat) message list,
    nat, nat, nat, nat, nat, nat, nat, mock_exit) Server" where
  "head_filtering_server = mock_server\<lparr>
     PendingAttesterSlashings :=
       (\<lambda>(atts, props) st noLimit. filter (\<lambda>a. a < 100 + st) atts),
     PendingProposerSlashings :=
       (\<lambda>(atts, props) st noLimit. filter (\<lambda>a. a < 200 + st) props),
     PendingExits :=
       (\<lambda>exits st slot noLimit. filter (\<lambda>(ep, idx, sg). unat idx < st) exits)
   \<rparr>"

definition refusing_exits_server ::
  "(nat list, nat list \<times> nat list, mock_exit list, bool \<times> (nat, nat) message list,
    nat, nat, nat, nat, nat, nat, nat, mock_exit) Server" where
  "refusing_exits_server = mock_server\<lparr>InsertVoluntaryExit := (\<lambda>exits st x. exits)\<rparr>"

section \<open>Properties of the handlers\<close>

subsection \<open>Unfolding the call sites, the loop\<close>

lemmas call_defs = call_HeadState_def call_ValidatorAtIndexReadOnly_def
  call_V1AttSlashingToV1Alpha1_def call_V1ProposerSlashingToV1Alpha1_def call_V1ExitToV1Alpha1_def
  call_VerifyAttesterSlashing_def call_VerifyProposerSlashing_def call_VerifyExitAndSignature_def
  call_InsertAttesterSlashing_def call_InsertProposerSlashing_def call_InsertVoluntaryExit_def
  call_PendingAttesterSlashings_def call_PendingProposerSlashings_def call_PendingExits_def
  call_Broadcast_def logCall_def Errorf_def Let_def

lemmas mock_defs = mock_server_def mock_world_def mock_exit_request_def mock_empty_request_def
  head_filtering_server_def refusing_exits_server_def

lemmas handler_defs = ListPoolAttesterSlashings_def SubmitAttesterSlashing_def
  ListPoolProposerSlashings_def SubmitProposerSlashing_def
  ListPoolVoluntaryExits_def SubmitVoluntaryExit_def

text \<open>
  The loop started at index \<open>i\<close> overwrites the \<open>length source\<close> elements of \<open>out\<close> from
  \<open>i\<close> on with the translations, in order, and logs one translation call for each.
\<close>

lemma range_loop_eq:
  "i + length source \<le> length out \<Longrightarrow>
   range_loop f ev i source out w =
     (take i out @ map (\<lambda>s. Some (f s)) source @ drop (i + length source) out,
      w\<lparr>calls := calls w @ map ev source\<rparr>)"
proof (induction source arbitrary: i out w)
  case Nil
  then show ?case by simp
next
  case (Cons s source)
  then show ?case
    by (simp add: logCall_def take_Suc_conv_app_nth)
qed

lemma range_loop_make:
  "range_loop f ev 0 source (replicate (length source) None) w =
     (map (\<lambda>s. Some (f s)) source, w\<lparr>calls := calls w @ map ev source\<rparr>)"
  by (simp add: range_loop_eq)

subsection \<open>Rejection by the validator\<close>

text \<open>
  Claim C1. A Submit whose translated object the verification function rejects against
  the fetched head state returns the status \<open>Invalid ...\<close> with the validator's error.
  The calls it made are the fetch of the head state, the translation and the
  verification (for an exit, the lookup of the validator before the translation): no
  insertion into a pool and no broadcast. The world is unchanged but for the chain info
  fetcher, as the fetch left it, and the call log; so both pools and the broadcaster are
  as they were.
\<close>

theorem rejected_submit_reaches_neither_pool_nor_network:
  "(HeadState bs (ChainInfoFetcher w) = (Inr hs, c') \<and>
    VerifyAttesterSlashing bs hs (V1AttSlashingToV1Alpha1 bs areq) = Some aerr \<longrightarrow>
      SubmitAttesterSlashing bs areq w =
        (Inl (Status Internal (''Invalid attester slashing: '' @ aerr)),
         w\<lparr>ChainInfoFetcher := c',
           calls := calls w @ [HeadStateCall, V1AttSlashingToV1Alpha1Call areq,
             VerifyAttesterSlashingCall hs (V1AttSlashingToV1Alpha1 bs areq)]\<rparr>) \<and>
      filter is_Insert (calls_made w (snd (SubmitAttesterSlashing bs areq w))) = [] \<and>
      filter is_Broadcast (calls_made w (snd (SubmitAttesterSlashing bs areq w))) = []) \<and>
   (HeadState bs (ChainInfoFetcher w) = (Inr hs, c') \<and>
    VerifyProposerSlashing bs hs (V1ProposerSlashingToV1Alpha1 bs preq) = Some perr \<longrightarrow>
      SubmitProposerSlashing bs preq w =
        (Inl (Status Internal (''Invalid proposer slashing: '' @ perr)),
         w\<lparr>ChainInfoFetcher := c',
           calls := calls w @ [HeadStateCall, V1ProposerSlashingToV1Alpha1Call preq,
             VerifyProposerSlashingCall hs (V1ProposerSlashingToV1Alpha1 bs preq)]\<rparr>) \<and>
      filter is_Insert (calls_made w (snd (SubmitProposerSlashing bs preq w))) = [] \<and>
      filter is_Broadcast (calls_made w (snd (SubmitProposerSlashing bs preq w))) = []) \<and>
   (HeadState bs (ChainInfoFetcher w) = (Inr hs, c') \<and>
    Exit xreq = Some exit \<and>
    ValidatorAtIndexReadOnly bs hs (ValidatorIndex exit) = Inr validator \<and>
    VerifyExitAndSignature bs validator (Slot bs hs) (Fork bs hs) (V1ExitToV1Alpha1 bs xreq)
      (GenesisValidatorRoot bs hs) = Some xerr \<longrightarrow>
      SubmitVoluntaryExit bs xreq w =
        (Inl (Status Internal (''Invalid voluntary exit: '' @ xerr)),
         w\<lparr>ChainInfoFetcher := c',
           calls := calls w @ [HeadStateCall,
             ValidatorAtIndexReadOnlyCall hs (ValidatorIndex exit), V1ExitToV1Alpha1Call xreq,
             VerifyExitAndSignatureCall validator (Slot bs hs) (Fork bs hs)
               (V1ExitToV1Alpha1 bs xreq) (GenesisValidatorRoot bs hs)]\<rparr>) \<and>
      filter is_Insert (calls_made w (snd (SubmitVoluntaryExit bs xreq w))) = [] \<and>
      filter is_Broadcast (calls_made w (snd (SubmitVoluntaryExit bs xreq w))) = [])"
  by (simp add: SubmitAttesterSlashing_def SubmitProposerSlashing_def SubmitVoluntaryExit_def
      call_defs calls_made_def)

text \<open>
  On the instance: the registry of head 4 has no validator 7, and the exit of validator 2
  has an empty signature.
\<close>

theorem rejected_submit_witness:
  "HeadState mock_server (ChainInfoFetcher (mock_world [4, 9] ([], []) True False)) = (Inr 4, [9]) \<and>
   VerifyAttesterSlashing mock_server 4 (V1AttSlashingToV1Alpha1 mock_server 7) =
     Some ''unknown validator'' \<and>
   SubmitAttesterSlashing mock_server 7 (mock_world [4, 9] ([], []) True False) =
     (Inl (Status Internal ''Invalid attester slashing: unknown validator''),
      \<lparr>ChainInfoFetcher = [9], SlashingsPool = ([], []), VoluntaryExitsPool = [],
         Broadcaster = (True, []), DisableBroadcastSlashings = False,
         calls = [HeadStateCall, V1AttSlashingToV1Alpha1Call 7,
                  VerifyAttesterSlashingCall 4 107]\<rparr>) \<and>
   VerifyProposerSlashing mock_server 4 (V1ProposerSlashingToV1Alpha1 mock_server 7) =
     Some ''unknown validator'' \<and>
   SubmitProposerSlashing mock_server 7 (mock_world [4, 9] ([], []) True False) =
     (Inl (Status Internal ''Invalid proposer slashing: unknown validator''),
      \<lparr>ChainInfoFetcher = [9], SlashingsPool = ([], []), VoluntaryExitsPool = [],
         Broadcaster = (True, []), DisableBroadcastSlashings = False,
         calls = [HeadStateCall, V1ProposerSlashingToV1Alpha1Call 7,
                  VerifyProposerSlashingCall 4 207]\<rparr>) \<and>
   Exit (mock_exit_request 2 []) = Some \<lparr>Epoch = 0, ValidatorIndex = 2\<rparr> \<and>
   ValidatorAtIndexReadOnly mock_server 4 2 = Inr 2 \<and>
   VerifyExitAndSignature mock_server 2 (Slot mock_server 4) (Fork mock_server 4)
     (V1ExitToV1Alpha1 mock_server (mock_exit_request 2 [])) (GenesisValidatorRoot mock_server 4) =
     Some ''no signature'' \<and>
   SubmitVoluntaryExit mock_server (mock_exit_request 2 []) (mock_world [4, 9] ([], []) True False) =
     (Inl (Status Internal ''Invalid voluntary exit: no signature''),
      \<lparr>ChainInfoFetcher = [9], SlashingsPool = ([], []), VoluntaryExitsPool = [],
         Broadcaster = (True, []), DisableBroadcastSlashings = False,
         calls = [HeadStateCall, ValidatorAtIndexReadOnlyCall 4 2,
                  V1ExitToV1Alpha1Call (mock_exit_request 2 []),
                  VerifyExitAndSignatureCall 2 4 0 (0, 2, []) []]\<rparr>)"
  using rejected_submit_reaches_neither_pool_nor_network
    [where bs = mock_server and w = "mock_world [4, 9] ([], []) True False" and hs = 4
       and c' = "[9]" and areq = 7 and aerr = "''unknown validator''"
       and preq = 7 and perr = "''unknown validator''"
       and xreq = "mock_exit_request 2 []" and exit = "\<lparr>Epoch = 0, ValidatorIndex = 2\<rparr>"
       and validator = 2 and xerr = "''no signature''"]
  by (simp add: mock_defs)

subsection \<open>No head state\<close>

text \<open>
  Claim C2. When the fetch of the head state fails, each of the six handlers returns the
  status \<open>Could not get head state: ...\<close> with the fetcher's error, and the fetch is the
  only call it made: no call to a verification function, to a pool or to the
  broadcaster. The world is unchanged but for the chain info fetcher, as the failed
  fetch left it, and the call log.
\<close>

theorem no_head_state_fails_every_handler:
  fixes w c' w'
  defines "w' \<equiv> w\<lparr>ChainInfoFetcher := c', calls := calls w @ [HeadStateCall]\<rparr>"
  assumes "HeadState bs (ChainInfoFetcher w) = (Inl err, c')"
  shows
    "ListPoolAttesterSlashings bs w =
       (Inl (Status Internal (''Could not get head state: '' @ err)), w') \<and>
     SubmitAttesterSlashing bs areq w =
       (Inl (Status Internal (''Could not get head state: '' @ err)), w') \<and>
     ListPoolProposerSlashings bs w =
       (Inl (Status Internal (''Could not get head state: '' @ err)), w') \<and>
     SubmitProposerSlashing bs preq w =
       (Inl (Status Internal (''Could not get head state: '' @ err)), w') \<and>
     ListPoolVoluntaryExits bs w =
       (Inl (Status Internal (''Could not get head state: '' @ err)), w') \<and>
     SubmitVoluntaryExit bs xreq w =
       (Inl (Status Internal (''Could not get head state: '' @ err)), w') \<and>
     calls_made w w' = [HeadStateCall] \<and>
     SlashingsPool w' = SlashingsPool w \<and>
     VoluntaryExitsPool w' = VoluntaryExitsPool w \<and>
     Broadcaster w' = Broadcaster w"
  using assms
  by (simp add: ListPoolAttesterSlashings_def SubmitAttesterSlashing_def
      ListPoolProposerSlashings_def SubmitProposerSlashing_def
      ListPoolVoluntaryExits_def SubmitVoluntaryExit_def call_defs calls_made_def)

text \<open>On the instance, with no head left to report.\<close>

theorem no_head_state_witness:
  "HeadState mock_server (ChainInfoFetcher (mock_world [] ([101], [202]) True False)) =
     (Inl ''no head'', []) \<and>
   ListPoolAttesterSlashings mock_server (mock_world [] ([101], [202]) True False) =
     (Inl (Status Internal ''Could not get head state: no head''),
      \<lparr>ChainInfoFetcher = [], SlashingsPool = ([101], [202]), VoluntaryExitsPool = [],
         Broadcaster = (True, []), DisableBroadcastSlashings = False,
         calls = [HeadStateCall]\<rparr>) \<and>
   SubmitAttesterSlashing mock_server 3 (mock_world [] ([101], [202]) True False) =
     (Inl (Status Internal ''Could not get head state: no head''),
      \<lparr>ChainInfoFetcher = [], SlashingsPool = ([101], [202]), VoluntaryExitsPool = [],
         Broadcaster = (True, []), DisableBroadcastSlashings = False,
         calls = [HeadStateCall]\<rparr>) \<and>
   ListPoolProposerSlashings mock_server (mock_world [] ([101], [202]) True False) =
     (Inl (Status Internal ''Could not get head state: no head''),
      \<lparr>ChainInfoFetcher = [], SlashingsPool = ([101], [202]), VoluntaryExitsPool = [],
         Broadcaster = (True, []), DisableBroadcastSlashings = False,
         calls = [HeadStateCall]\<rparr>) \<and>
   SubmitProposerSlashing mock_server 3 (mock_world [] ([101], [202]) True False) =
     (Inl (Status Internal ''Could not get head state: no head''),
      \<lparr>ChainInfoFetcher = [], SlashingsPool = ([101], [202]), VoluntaryExitsPool = [],
         Broadcaster = (True, []), DisableBroadcastSlashings = False,
         calls = [HeadStateCall]\<rparr>) \<and>
   ListPoolVoluntaryExits mock_server (mock_world [] ([101], [202]) True False) =
     (Inl (Status Internal ''Could not get head state: no head''),
      \<lparr>ChainInfoFetcher = [], SlashingsPool = ([101], [202]), VoluntaryExitsPool = [],
         Broadcaster = (True, []), DisableBroadcastSlashings = False,
         calls = [HeadStateCall]\<rparr>) \<and>
   SubmitVoluntaryExit mock_server (mock_exit_request 2 [1])
       (mock_world [] ([101], [202]) True False) =
     (Inl (Status Internal ''Could not get head state: no head''),
      \<lparr>ChainInfoFetcher = [], SlashingsPool = ([101], [202]), VoluntaryExitsPool = [],
         Broadcaster = (True, []), DisableBroadcastSlashings = False,
         calls = [HeadStateCall]\<rparr>)"
  using no_head_state_fails_every_handler
    [where bs = mock_server and w = "mock_world [] ([101], [202]) True False"
       and err = "''no head''" and c' = "[]" and areq = 3 and preq = 3
       and xreq = "mock_exit_request 2 [1]"]
  by (simp add: mock_defs)

subsection \<open>The gate on broadcasting\<close>

text \<open>
  Claim C3. With \<open>DisableBroadcastSlashings\<close> set, a Submit of an attester or proposer
  slashing that passes verification and insertion returns the empty acknowledgment
  after the insertion, with no call to the broadcaster, which is left as it was. A
  Submit of a voluntary exit that passes the lookup and the verification calls the
  broadcaster once, with the request, whatever value \<open>flag\<close> the configuration holds.
\<close>

theorem broadcast_gating:
  "(HeadState bs (ChainInfoFetcher w) = (Inr hs, c') \<and>
    VerifyAttesterSlashing bs hs (V1AttSlashingToV1Alpha1 bs areq) = None \<and>
    InsertAttesterSlashing bs (SlashingsPool w) hs (V1AttSlashingToV1Alpha1 bs areq) = (None, ap') \<and>
    DisableBroadcastSlashings w \<longrightarrow>
      SubmitAttesterSlashing bs areq w =
        (Inr (),
         w\<lparr>ChainInfoFetcher := c', SlashingsPool := ap',
           calls := calls w @ [HeadStateCall, V1AttSlashingToV1Alpha1Call areq,
             VerifyAttesterSlashingCall hs (V1AttSlashingToV1Alpha1 bs areq),
             InsertAttesterSlashingCall hs (V1AttSlashingToV1Alpha1 bs areq)]\<rparr>) \<and>
      filter is_Broadcast (calls_made w (snd (SubmitAttesterSlashing bs areq w))) = [] \<and>
      Broadcaster (snd (SubmitAttesterSlashing bs areq w)) = Broadcaster w) \<and>
   (HeadState bs (ChainInfoFetcher w) = (Inr hs, c') \<and>
    VerifyProposerSlashing bs hs (V1ProposerSlashingToV1Alpha1 bs preq) = None \<and>
    InsertProposerSlashing bs (SlashingsPool w) hs (V1ProposerSlashingToV1Alpha1 bs preq) = (None, pp') \<and>
    DisableBroadcastSlashings w \<longrightarrow>
      SubmitProposerSlashing bs preq w =
        (Inr (),
         w\<lparr>ChainInfoFetcher := c', SlashingsPool := pp',
           calls := calls w @ [HeadStateCall, V1ProposerSlashingToV1Alpha1Call preq,
             VerifyProposerSlashingCall hs (V1ProposerSlashingToV1Alpha1 bs preq),
             InsertProposerSlashingCall hs (V1ProposerSlashingToV1Alpha1 bs preq)]\<rparr>) \<and>
      filter is_Broadcast (calls_made w (snd (SubmitProposerSlashing bs preq w))) = [] \<and>
      Broadcaster (snd (SubmitProposerSlashing bs preq w)) = Broadcaster w) \<and>
   (HeadState bs (ChainInfoFetcher w) = (Inr hs, c') \<and>
    Exit xreq = Some exit \<and>
    ValidatorAtIndexReadOnly bs hs (ValidatorIndex exit) = Inr validator \<and>
    VerifyExitAndSignature bs validator (Slot bs hs) (Fork bs hs) (V1ExitToV1Alpha1 bs xreq)
      (GenesisValidatorRoot bs hs) = None \<longrightarrow>
      filter is_Broadcast
        (calls_made (w\<lparr>DisableBroadcastSlashings := flag\<rparr>)
           (snd (SubmitVoluntaryExit bs xreq (w\<lparr>DisableBroadcastSlashings := flag\<rparr>)))) =
        [BroadcastCall (SignedVoluntaryExitMsg xreq)] \<and>
      Broadcaster (snd (SubmitVoluntaryExit bs xreq (w\<lparr>DisableBroadcastSlashings := flag\<rparr>))) =
        snd (Broadcast bs (Broadcaster w) (SignedVoluntaryExitMsg xreq)))"
  by (simp add: SubmitAttesterSlashing_def SubmitProposerSlashing_def SubmitVoluntaryExit_def
      call_defs calls_made_def split: prod.splits option.splits)

text \<open>
  On the instance, with the flag set and the link up; the exit is broadcast with the flag
  set and with the flag cleared.
\<close>

theorem broadcast_gating_witness:
  "HeadState mock_server (ChainInfoFetcher (mock_world [4, 9] ([], []) True True)) = (Inr 4, [9]) \<and>
   VerifyAttesterSlashing mock_server 4 (V1AttSlashingToV1Alpha1 mock_server 3) = None \<and>
   InsertAttesterSlashing mock_server (SlashingsPool (mock_world [4, 9] ([], []) True True)) 4
     (V1AttSlashingToV1Alpha1 mock_server 3) = (None, ([103], [])) \<and>
   DisableBroadcastSlashings (mock_world [4, 9] ([], []) True True) \<and>
   SubmitAttesterSlashing mock_server 3 (mock_world [4, 9] ([], []) True True) =
     (Inr (),
      \<lparr>ChainInfoFetcher = [9], SlashingsPool = ([103], []), VoluntaryExitsPool = [],
         Broadcaster = (True, []), DisableBroadcastSlashings = True,
         calls = [HeadStateCall, V1AttSlashingToV1Alpha1Call 3,
                  VerifyAttesterSlashingCall 4 103, InsertAttesterSlashingCall 4 103]\<rparr>) \<and>
   VerifyProposerSlashing mock_server 4 (V1ProposerSlashingToV1Alpha1 mock_server 1) = None \<and>
   InsertProposerSlashing mock_server (SlashingsPool (mock_world [4, 9] ([], []) True True)) 4
     (V1ProposerSlashingToV1Alpha1 mock_server 1) = (None, ([], [201])) \<and>
   SubmitProposerSlashing mock_server 1 (mock_world [4, 9] ([], []) True True) =
     (Inr (),
      \<lparr>ChainInfoFetcher = [9], SlashingsPool = ([], [201]), VoluntaryExitsPool = [],
         Broadcaster = (True, []), DisableBroadcastSlashings = True,
         calls = [HeadStateCall, V1ProposerSlashingToV1Alpha1Call 1,
                  VerifyProposerSlashingCall 4 201, InsertProposerSlashingCall 4 201]\<rparr>) \<and>
   Exit (mock_exit_request 2 [1]) = Some \<lparr>Epoch = 0, ValidatorIndex = 2\<rparr> \<and>
   ValidatorAtIndexReadOnly mock_server 4 2 = Inr 2 \<and>
   VerifyExitAndSignature mock_server 2 (Slot mock_server 4) (Fork mock_server 4)
     (V1ExitToV1Alpha1 mock_server (mock_exit_request 2 [1])) (GenesisValidatorRoot mock_server 4) =
     None \<and>
   filter is_Broadcast
     (calls_made ((mock_world [4, 9] ([], []) True True)\<lparr>DisableBroadcastSlashings := True\<rparr>)
        (snd (SubmitVoluntaryExit mock_server (mock_exit_request 2 [1])
                ((mock_world [4, 9] ([], []) True True)\<lparr>DisableBroadcastSlashings := True\<rparr>)))) =
     [BroadcastCall (SignedVoluntaryExitMsg (mock_exit_request 2 [1]))] \<and>
   Broadcaster
     (snd (SubmitVoluntaryExit mock_server (mock_exit_request 2 [1])
             ((mock_world [4, 9] ([], []) True True)\<lparr>DisableBroadcastSlashings := True\<rparr>))) =
     (True, [SignedVoluntaryExitMsg (mock_exit_request 2 [1])]) \<and>
   filter is_Broadcast
     (calls_made ((mock_world [4, 9] ([], []) True True)\<lparr>DisableBroadcastSlashings := False\<rparr>)
        (snd (SubmitVoluntaryExit mock_server (mock_exit_request 2 [1])
                ((mock_world [4, 9] ([], []) True True)\<lparr>DisableBroadcastSlashings := False\<rparr>)))) =
     [BroadcastCall (SignedVoluntaryExitMsg (mock_exit_request 2 [1]))] \<and>
   Broadcaster
     (snd (SubmitVoluntaryExit mock_server (mock_exit_request 2 [1])
             ((mock_world [4, 9] ([], []) True True)\<lparr>DisableBroadcastSlashings := False\<rparr>))) =
     (True, [SignedVoluntaryExitMsg (mock_exit_request 2 [1])])"
  using broadcast_gating
    [where bs = mock_server and w = "mock_world [4, 9] ([], []) True True" and hs = 4
       and c' = "[9]" and areq = 3 and ap' = "([103], [])" and preq = 1 and pp' = "([], [201])"
       and xreq = "mock_exit_request 2 [1]" and exit = "\<lparr>Epoch = 0, ValidatorIndex = 2\<rparr>"
       and validator = 2 and flag = True]
    broadcast_gating
    [where bs = mock_server and w = "mock_world [4, 9] ([], []) True True" and hs = 4
       and c' = "[9]" and areq = 3 and ap' = "([103], [])" and preq = 1 and pp' = "([], [201])"
       and xreq = "mock_exit_request 2 [1]" and exit = "\<lparr>Epoch = 0, ValidatorIndex = 2\<rparr>"
       and validator = 2 and flag = False]
  by (simp add: mock_defs)

subsection \<open>Insertion before broadcast\<close>

text \<open>
  Whether an object that was inserted is listed afterwards is decided by the pool's
  pending query and the head it is asked with, not by the handlers. On the instance
  whose pools filter by the head: slashing 3 passes the verification against head 4 and
  is inserted as 103, the broadcast fails with the link down, and the pool keeps 103;
  the List that follows fetches head 2, for which the pending query reports nothing, and
  returns no element.
\<close>

theorem list_after_failed_broadcast_counterexample:
  "SubmitAttesterSlashing head_filtering_server 3 (mock_world [4, 2] ([], []) False False) =
     (Inl (Status Internal ''Could not broadcast slashing object: no peers''),
      \<lparr>ChainInfoFetcher = [2], SlashingsPool = ([103], []), VoluntaryExitsPool = [],
         Broadcaster = (False, []), DisableBroadcastSlashings = False,
         calls = [HeadStateCall, V1AttSlashingToV1Alpha1Call 3, VerifyAttesterSlashingCall 4 103,
                  InsertAttesterSlashingCall 4 103, BroadcastCall (AttesterSlashingMsg 3)]\<rparr>) \<and>
   fst (ListPoolAttesterSlashings head_filtering_server
          (snd (SubmitAttesterSlashing head_filtering_server 3
                  (mock_world [4, 2] ([], []) False False)))) =
     Inr \<lparr>Data = []\<rparr>"
  by (simp add: mock_defs handler_defs call_defs)

text \<open>
  Claim C4, as it holds of the code. In the log of every Submit, whatever the
  collaborators do, a broadcast call comes only after an insertion call. When the broadcast fails, the
  handler returns the status \<open>Could not broadcast ...\<close>; the calls it made end with the
  insertion followed by the broadcast, and the pool it leaves is the pool \<open>ap'\<close> (\<open>pp'\<close>,
  \<open>xp'\<close>) that the insertion returned: no later call touches it, nothing is removed. A
  List of that kind run on the world the failed Submit leaves, with a head state \<open>hs'\<close>
  fetched anew, returns the translations of what the pending query reports from that
  pool for \<open>hs'\<close>.
\<close>

theorem insertion_precedes_broadcast_and_pool_keeps_it:
  "broadcast_after_insert False (calls_made w (snd (SubmitAttesterSlashing bs areq w))) \<and>
   broadcast_after_insert False (calls_made w (snd (SubmitProposerSlashing bs preq w))) \<and>
   broadcast_after_insert False (calls_made w (snd (SubmitVoluntaryExit bs xreq w))) \<and>
   (HeadState bs (ChainInfoFetcher w) = (Inr hs, c') \<and>
    VerifyAttesterSlashing bs hs (V1AttSlashingToV1Alpha1 bs areq) = None \<and>
    InsertAttesterSlashing bs (SlashingsPool w) hs (V1AttSlashingToV1Alpha1 bs areq) = (None, ap') \<and>
    \<not> DisableBroadcastSlashings w \<and>
    Broadcast bs (Broadcaster w) (AttesterSlashingMsg areq) = (Some aerr, an') \<longrightarrow>
      SubmitAttesterSlashing bs areq w =
        (Inl (Status Internal (''Could not broadcast slashing object: '' @ aerr)),
         w\<lparr>ChainInfoFetcher := c', SlashingsPool := ap', Broadcaster := an',
           calls := calls w @ [HeadStateCall, V1AttSlashingToV1Alpha1Call areq,
             VerifyAttesterSlashingCall hs (V1AttSlashingToV1Alpha1 bs areq),
             InsertAttesterSlashingCall hs (V1AttSlashingToV1Alpha1 bs areq),
             BroadcastCall (AttesterSlashingMsg areq)]\<rparr>) \<and>
      (HeadState bs c' = (Inr hs', c'') \<longrightarrow>
         fst (ListPoolAttesterSlashings bs (snd (SubmitAttesterSlashing bs areq w))) =
           Inr \<lparr>Data = map (\<lambda>s. Some (V1Alpha1AttSlashingToV1 bs s))
                         (PendingAttesterSlashings bs ap' hs' True)\<rparr>)) \<and>
   (HeadState bs (ChainInfoFetcher w) = (Inr hs, c') \<and>
    VerifyProposerSlashing bs hs (V1ProposerSlashingToV1Alpha1 bs preq) = None \<and>
    InsertProposerSlashing bs (SlashingsPool w) hs (V1ProposerSlashingToV1Alpha1 bs preq) = (None, pp') \<and>
    \<not> DisableBroadcastSlashings w \<and>
    Broadcast bs (Broadcaster w) (ProposerSlashingMsg preq) = (Some perr, pn') \<longrightarrow>
      SubmitProposerSlashing bs preq w =
        (Inl (Status Internal (''Could not broadcast slashing object: '' @ perr)),
         w\<lparr>ChainInfoFetcher := c', SlashingsPool := pp', Broadcaster := pn',
           calls := calls w @ [HeadStateCall, V1ProposerSlashingToV1Alpha1Call preq,
             VerifyProposerSlashingCall hs (V1ProposerSlashingToV1Alpha1 bs preq),
             InsertProposerSlashingCall hs (V1ProposerSlashingToV1Alpha1 bs preq),
             BroadcastCall (ProposerSlashingMsg preq)]\<rparr>) \<and>
      (HeadState bs c' = (Inr hs', c'') \<longrightarrow>
         fst (ListPoolProposerSlashings bs (snd (SubmitProposerSlashing bs preq w))) =
           Inr \<lparr>Data = map (\<lambda>s. Some (V1Alpha1ProposerSlashingToV1 bs s))
                         (PendingProposerSlashings bs pp' hs' True)\<rparr>)) \<and>
   (HeadState bs (ChainInfoFetcher w) = (Inr hs, c') \<and>
    Exit xreq = Some exit \<and>
    ValidatorAtIndexReadOnly bs hs (ValidatorIndex exit) = Inr validator \<and>
    VerifyExitAndSignature bs validator (Slot bs hs) (Fork bs hs) (V1ExitToV1Alpha1 bs xreq)
      (GenesisValidatorRoot bs hs) = None \<and>
    InsertVoluntaryExit bs (VoluntaryExitsPool w) hs (V1ExitToV1Alpha1 bs xreq) = xp' \<and>
    Broadcast bs (Broadcaster w) (SignedVoluntaryExitMsg xreq) = (Some xerr, xn') \<longrightarrow>
      SubmitVoluntaryExit bs xreq w =
        (Inl (Status Internal (''Could not broadcast voluntary exit object: '' @ xerr)),
         w\<lparr>ChainInfoFetcher := c', VoluntaryExitsPool := xp', Broadcaster := xn',
           calls := calls w @ [HeadStateCall,
             ValidatorAtIndexReadOnlyCall hs (ValidatorIndex exit), V1ExitToV1Alpha1Call xreq,
             VerifyExitAndSignatureCall validator (Slot bs hs) (Fork bs hs)
               (V1ExitToV1Alpha1 bs xreq) (GenesisValidatorRoot bs hs),
             InsertVoluntaryExitCall hs (V1ExitToV1Alpha1 bs xreq),
             BroadcastCall (SignedVoluntaryExitMsg xreq)]\<rparr>) \<and>
      (HeadState bs c' = (Inr hs', c'') \<longrightarrow>
         fst (ListPoolVoluntaryExits bs (snd (SubmitVoluntaryExit bs xreq w))) =
           Inr \<lparr>Data = map (\<lambda>s. Some (V1Alpha1ExitToV1 bs s))
                         (PendingExits bs xp' hs' (Slot bs hs') True)\<rparr>))"
  (is "?oa \<and> ?op \<and> ?ox \<and> ?fa \<and> ?fp \<and> ?fx")
proof -
  have oa: ?oa
    by (simp add: SubmitAttesterSlashing_def call_defs calls_made_def split_beta
        split: sum.splits option.splits)
  have op: ?op
    by (simp add: SubmitProposerSlashing_def call_defs calls_made_def split_beta
        split: sum.splits option.splits)
  have ox: ?ox
    by (simp add: SubmitVoluntaryExit_def call_defs calls_made_def split_beta
        split: sum.splits option.splits)
  have fa: ?fa
    by (simp add: SubmitAttesterSlashing_def ListPoolAttesterSlashings_def call_defs
        range_loop_make)
  have fp: ?fp
    by (simp add: SubmitProposerSlashing_def ListPoolProposerSlashings_def call_defs
        range_loop_make)
  have fx: ?fx
    by (simp add: SubmitVoluntaryExit_def ListPoolVoluntaryExits_def call_defs
        range_loop_make)
  show ?thesis
    by (intro conjI oa op ox fa fp fx)
qed

text \<open>
  On the instance, with the link down: the pools keep the slashings and the exit, and
  the Lists that follow report them for head 9.
\<close>

theorem insertion_precedes_broadcast_witness:
  "HeadState mock_server (ChainInfoFetcher (mock_world [4, 9] ([], []) False False)) = (Inr 4, [9]) \<and>
   \<not> DisableBroadcastSlashings (mock_world [4, 9] ([], []) False False) \<and>
   HeadState mock_server [9] = (Inr 9, []) \<and>
   VerifyAttesterSlashing mock_server 4 (V1AttSlashingToV1Alpha1 mock_server 3) = None \<and>
   InsertAttesterSlashing mock_server (SlashingsPool (mock_world [4, 9] ([], []) False False)) 4
     (V1AttSlashingToV1Alpha1 mock_server 3) = (None, ([103], [])) \<and>
   Broadcast mock_server (Broadcaster (mock_world [4, 9] ([], []) False False))
     (AttesterSlashingMsg 3) = (Some ''no peers'', (False, [])) \<and>
   SubmitAttesterSlashing mock_server 3 (mock_world [4, 9] ([], []) False False) =
     (Inl (Status Internal ''Could not broadcast slashing object: no peers''),
      \<lparr>ChainInfoFetcher = [9], SlashingsPool = ([103], []), VoluntaryExitsPool = [],
         Broadcaster = (False, []), DisableBroadcastSlashings = False,
         calls = [HeadStateCall, V1AttSlashingToV1Alpha1Call 3, VerifyAttesterSlashingCall 4 103,
                  InsertAttesterSlashingCall 4 103, BroadcastCall (AttesterSlashingMsg 3)]\<rparr>) \<and>
   fst (ListPoolAttesterSlashings mock_server
          (snd (SubmitAttesterSlashing mock_server 3 (mock_world [4, 9] ([], []) False False)))) =
     Inr \<lparr>Data = [Some 3]\<rparr> \<and>
   VerifyProposerSlashing mock_server 4 (V1ProposerSlashingToV1Alpha1 mock_server 1) = None \<and>
   InsertProposerSlashing mock_server (SlashingsPool (mock_world [4, 9] ([], []) False False)) 4
     (V1ProposerSlashingToV1Alpha1 mock_server 1) = (None, ([], [201])) \<and>
   Broadcast mock_server (Broadcaster (mock_world [4, 9] ([], []) False False))
     (ProposerSlashingMsg 1) = (Some ''no peers'', (False, [])) \<and>
   SubmitProposerSlashing mock_server 1 (mock_world [4, 9] ([], []) False False) =
     (Inl (Status Internal ''Could not broadcast slashing object: no peers''),
      \<lparr>ChainInfoFetcher = [9], SlashingsPool = ([], [201]), VoluntaryExitsPool = [],
         Broadcaster = (False, []), DisableBroadcastSlashings = False,
         calls = [HeadStateCall, V1ProposerSlashingToV1Alpha1Call 1, VerifyProposerSlashingCall 4 201,
                  InsertProposerSlashingCall 4 201, BroadcastCall (ProposerSlashingMsg 1)]\<rparr>) \<and>
   fst (ListPoolProposerSlashings mock_server
          (snd (SubmitProposerSlashing mock_server 1 (mock_world [4, 9] ([], []) False False)))) =
     Inr \<lparr>Data = [Some 1]\<rparr> \<and>
   Exit (mock_exit_request 2 [1]) = Some \<lparr>Epoch = 0, ValidatorIndex = 2\<rparr> \<and>
   ValidatorAtIndexReadOnly mock_server 4 2 = Inr 2 \<and>
   VerifyExitAndSignature mock_server 2 (Slot mock_server 4) (Fork mock_server 4)
     (V1ExitToV1Alpha1 mock_server (mock_exit_request 2 [1])) (GenesisValidatorRoot mock_server 4) =
     None \<and>
   InsertVoluntaryExit mock_server (VoluntaryExitsPool (mock_world [4, 9] ([], []) False False)) 4
     (V1ExitToV1Alpha1 mock_server (mock_exit_request 2 [1])) = [(0, 2, [1])] \<and>
   Broadcast mock_server (Broadcaster (mock_world [4, 9] ([], []) False False))
     (SignedVoluntaryExitMsg (mock_exit_request 2 [1])) = (Some ''no peers'', (False, [])) \<and>
   SubmitVoluntaryExit mock_server (mock_exit_request 2 [1])
       (mock_world [4, 9] ([], []) False False) =
     (Inl (Status Internal ''Could not broadcast voluntary exit object: no peers''),
      \<lparr>ChainInfoFetcher = [9], SlashingsPool = ([], []), VoluntaryExitsPool = [(0, 2, [1])],
         Broadcaster = (False, []), DisableBroadcastSlashings = False,
         calls = [HeadStateCall, ValidatorAtIndexReadOnlyCall 4 2,
                  V1ExitToV1Alpha1Call (mock_exit_request 2 [1]),
                  VerifyExitAndSignatureCall 2 4 0 (0, 2, [1]) [],
                  InsertVoluntaryExitCall 4 (0, 2, [1]),
                  BroadcastCall (SignedVoluntaryExitMsg (mock_exit_request 2 [1]))]\<rparr>) \<and>
   fst (ListPoolVoluntaryExits mock_server
          (snd (SubmitVoluntaryExit mock_server (mock_exit_request 2 [1])
                  (mock_world [4, 9] ([], []) False False)))) =
     Inr \<lparr>Data = [Some (mock_exit_request 2 [1])]\<rparr>"
  using insertion_precedes_broadcast_and_pool_keeps_it
    [where bs = mock_server and w = "mock_world [4, 9] ([], []) False False" and hs = 4
       and c' = "[9]" and hs' = 9 and c'' = "[]"
       and areq = 3 and ap' = "([103], [])" and aerr = "''no peers''" and an' = "(False, [])"
       and preq = 1 and pp' = "([], [201])" and perr = "''no peers''" and pn' = "(False, [])"
       and xreq = "mock_exit_request 2 [1]" and exit = "\<lparr>Epoch = 0, ValidatorIndex = 2\<rparr>"
       and validator = 2 and xp' = "[(0, 2, [1])]" and xerr = "''no peers''"
       and xn' = "(False, [])"]
  by (simp add: mock_defs handler_defs call_defs)

subsection \<open>One snapshot for one Submit\<close>

text \<open>
  Claim C5. Every Submit, on every input, calls the head-state fetch exactly once, and
  leaves the chain info fetcher as that one fetch left it. When the fetch returns the
  snapshot \<open>hs\<close> and the verification passes, the verification call and the insertion
  call both carry that same \<open>hs\<close>, and the pool is the one the insertion with \<open>hs\<close>
  returned. For a voluntary exit the verification function takes no head state: it is
  called with the validator found in \<open>hs\<close> and the slot, the fork and the genesis
  validators root read from \<open>hs\<close>, and the insertion is called with \<open>hs\<close> itself.
\<close>

theorem one_fetch_one_snapshot:
  "length (filter is_HeadState (calls_made w (snd (SubmitAttesterSlashing bs areq w)))) = 1 \<and>
   ChainInfoFetcher (snd (SubmitAttesterSlashing bs areq w)) = snd (HeadState bs (ChainInfoFetcher w)) \<and>
   length (filter is_HeadState (calls_made w (snd (SubmitProposerSlashing bs preq w)))) = 1 \<and>
   ChainInfoFetcher (snd (SubmitProposerSlashing bs preq w)) = snd (HeadState bs (ChainInfoFetcher w)) \<and>
   length (filter is_HeadState (calls_made w (snd (SubmitVoluntaryExit bs xreq w)))) = 1 \<and>
   ChainInfoFetcher (snd (SubmitVoluntaryExit bs xreq w)) = snd (HeadState bs (ChainInfoFetcher w)) \<and>
   (HeadState bs (ChainInfoFetcher w) = (Inr hs, c') \<and>
    VerifyAttesterSlashing bs hs (V1AttSlashingToV1Alpha1 bs areq) = None \<longrightarrow>
      take 4 (calls_made w (snd (SubmitAttesterSlashing bs areq w))) =
        [HeadStateCall, V1AttSlashingToV1Alpha1Call areq,
         VerifyAttesterSlashingCall hs (V1AttSlashingToV1Alpha1 bs areq),
         InsertAttesterSlashingCall hs (V1AttSlashingToV1Alpha1 bs areq)] \<and>
      SlashingsPool (snd (SubmitAttesterSlashing bs areq w)) =
        snd (InsertAttesterSlashing bs (SlashingsPool w) hs (V1AttSlashingToV1Alpha1 bs areq))) \<and>
   (HeadState bs (ChainInfoFetcher w) = (Inr hs, c') \<and>
    VerifyProposerSlashing bs hs (V1ProposerSlashingToV1Alpha1 bs preq) = None \<longrightarrow>
      take 4 (calls_made w (snd (SubmitProposerSlashing bs preq w))) =
        [HeadStateCall, V1ProposerSlashingToV1Alpha1Call preq,
         VerifyProposerSlashingCall hs (V1ProposerSlashingToV1Alpha1 bs preq),
         InsertProposerSlashingCall hs (V1ProposerSlashingToV1Alpha1 bs preq)] \<and>
      SlashingsPool (snd (SubmitProposerSlashing bs preq w)) =
        snd (InsertProposerSlashing bs (SlashingsPool w) hs (V1ProposerSlashingToV1Alpha1 bs preq))) \<and>
   (HeadState bs (ChainInfoFetcher w) = (Inr hs, c') \<and>
    Exit xreq = Some exit \<and>
    ValidatorAtIndexReadOnly bs hs (ValidatorIndex exit) = Inr validator \<and>
    VerifyExitAndSignature bs validator (Slot bs hs) (Fork bs hs) (V1ExitToV1Alpha1 bs xreq)
      (GenesisValidatorRoot bs hs) = None \<longrightarrow>
      take 5 (calls_made w (snd (SubmitVoluntaryExit bs xreq w))) =
        [HeadStateCall, ValidatorAtIndexReadOnlyCall hs (ValidatorIndex exit),
         V1ExitToV1Alpha1Call xreq,
         VerifyExitAndSignatureCall validator (Slot bs hs) (Fork bs hs)
           (V1ExitToV1Alpha1 bs xreq) (GenesisValidatorRoot bs hs),
         InsertVoluntaryExitCall hs (V1ExitToV1Alpha1 bs xreq)] \<and>
      VoluntaryExitsPool (snd (SubmitVoluntaryExit bs xreq w)) =
        InsertVoluntaryExit bs (VoluntaryExitsPool w) hs (V1ExitToV1Alpha1 bs xreq))"
  (is "?na \<and> ?ca \<and> ?np \<and> ?cp \<and> ?nx \<and> ?cx \<and> ?sa \<and> ?sp \<and> ?sx")
proof -
  have a: "?na \<and> ?ca"
    by (simp add: SubmitAttesterSlashing_def call_defs calls_made_def split_beta
        split: sum.splits option.splits)
  have p: "?np \<and> ?cp"
    by (simp add: SubmitProposerSlashing_def call_defs calls_made_def split_beta
        split: sum.splits option.splits)
  have x: "?nx \<and> ?cx"
    by (simp add: SubmitVoluntaryExit_def call_defs calls_made_def split_beta
        split: sum.splits option.splits)
  have sa: ?sa
    by (simp add: SubmitAttesterSlashing_def call_defs calls_made_def split_beta
        split: option.splits)
  have sp: ?sp
    by (simp add: SubmitProposerSlashing_def call_defs calls_made_def split_beta
        split: option.splits)
  have sx: ?sx
    by (simp add: SubmitVoluntaryExit_def call_defs calls_made_def split_beta
        split: option.splits)
  from a p x sa sp sx show ?thesis
    by (intro conjI) (simp_all only:)
qed

text \<open>
  On the instance, whose fetcher would report head 9 at a second fetch: the calls carry
  head 4, and head 9 is still to come afterwards.
\<close>

theorem one_fetch_one_snapshot_witness:
  "HeadState mock_server (ChainInfoFetcher (mock_world [4, 9] ([], []) True False)) = (Inr 4, [9]) \<and>
   HeadState mock_server [9] = (Inr 9, []) \<and>
   VerifyAttesterSlashing mock_server 4 (V1AttSlashingToV1Alpha1 mock_server 3) = None \<and>
   take 4 (calls_made (mock_world [4, 9] ([], []) True False)
             (snd (SubmitAttesterSlashing mock_server 3 (mock_world [4, 9] ([], []) True False)))) =
     [HeadStateCall, V1AttSlashingToV1Alpha1Call 3, VerifyAttesterSlashingCall 4 103,
      InsertAttesterSlashingCall 4 103] \<and>
   ChainInfoFetcher (snd (SubmitAttesterSlashing mock_server 3 (mock_world [4, 9] ([], []) True False))) =
     [9] \<and>
   SlashingsPool (snd (SubmitAttesterSlashing mock_server 3 (mock_world [4, 9] ([], []) True False))) =
     ([103], []) \<and>
   VerifyProposerSlashing mock_server 4 (V1ProposerSlashingToV1Alpha1 mock_server 1) = None \<and>
   take 4 (calls_made (mock_world [4, 9] ([], []) True False)
             (snd (SubmitProposerSlashing mock_server 1 (mock_world [4, 9] ([], []) True False)))) =
     [HeadStateCall, V1ProposerSlashingToV1Alpha1Call 1, VerifyProposerSlashingCall 4 201,
      InsertProposerSlashingCall 4 201] \<and>
   ChainInfoFetcher (snd (SubmitProposerSlashing mock_server 1 (mock_world [4, 9] ([], []) True False))) =
     [9] \<and>
   SlashingsPool (snd (SubmitProposerSlashing mock_server 1 (mock_world [4, 9] ([], []) True False))) =
     ([], [201]) \<and>
   Exit (mock_exit_request 2 [1]) = Some \<lparr>Epoch = 0, ValidatorIndex = 2\<rparr> \<and>
   ValidatorAtIndexReadOnly mock_server 4 2 = Inr 2 \<and>
   VerifyExitAndSignature mock_server 2 (Slot mock_server 4) (Fork mock_server 4)
     (V1ExitToV1Alpha1 mock_server (mock_exit_request 2 [1])) (GenesisValidatorRoot mock_server 4) =
     None \<and>
   take 5 (calls_made (mock_world [4, 9] ([], []) True False)
             (snd (SubmitVoluntaryExit mock_server (mock_exit_request 2 [1])
                     (mock_world [4, 9] ([], []) True False)))) =
     [HeadStateCall, ValidatorAtIndexReadOnlyCall 4 2,
      V1ExitToV1Alpha1Call (mock_exit_request 2 [1]),
      VerifyExitAndSignatureCall 2 4 0 (0, 2, [1]) [],
      InsertVoluntaryExitCall 4 (0, 2, [1])] \<and>
   ChainInfoFetcher (snd (SubmitVoluntaryExit mock_server (mock_exit_request 2 [1])
                            (mock_world [4, 9] ([], []) True False))) = [9] \<and>
   VoluntaryExitsPool (snd (SubmitVoluntaryExit mock_server (mock_exit_request 2 [1])
                              (mock_world [4, 9] ([], []) True False))) = [(0, 2, [1])]"
  using one_fetch_one_snapshot
    [where bs = mock_server and w = "mock_world [4, 9] ([], []) True False" and hs = 4
       and c' = "[9]" and areq = 3 and preq = 1
       and xreq = "mock_exit_request 2 [1]" and exit = "\<lparr>Epoch = 0, ValidatorIndex = 2\<rparr>"
       and validator = 2]
  by (simp add: mock_defs handler_defs call_defs calls_made_def)

subsection \<open>The List handlers\<close>

lemma filter_map_none: "(\<And>x. \<not> P (f x)) \<Longrightarrow> filter P (map f xs) = []"
  by (induction xs) auto

text \<open>
  Claim C6. When the fetch of the head state succeeds with \<open>hs\<close>, a List handler returns
  the envelope whose \<open>Data\<close> is the list of the translations of the objects that the
  pool's pending query returns for \<open>hs\<close> with the no-limit argument \<open>True\<close>: \<open>map\<close> keeps
  the length and the order, so element \<open>i\<close> of \<open>Data\<close> is the translation of the
  \<open>i\<close>-th pending object. The calls made are the fetch, the pending query and one
  translation for each object: no insertion and no verification. The world is unchanged
  but for the chain info fetcher and the call log.
\<close>

theorem list_returns_translated_pending:
  "(HeadState bs (ChainInfoFetcher w) = (Inr hs, c') \<longrightarrow>
      ListPoolAttesterSlashings bs w =
        (Inr \<lparr>Data = map (\<lambda>s. Some (V1Alpha1AttSlashingToV1 bs s))
                      (PendingAttesterSlashings bs (SlashingsPool w) hs True)\<rparr>,
         w\<lparr>ChainInfoFetcher := c',
           calls := calls w @ HeadStateCall # PendingAttesterSlashingsCall hs True #
             map V1Alpha1AttSlashingToV1Call
               (PendingAttesterSlashings bs (SlashingsPool w) hs True)\<rparr>) \<and>
      filter is_Insert (calls_made w (snd (ListPoolAttesterSlashings bs w))) = [] \<and>
      filter is_Verify (calls_made w (snd (ListPoolAttesterSlashings bs w))) = []) \<and>
   (HeadState bs (ChainInfoFetcher w) = (Inr hs, c') \<longrightarrow>
      ListPoolProposerSlashings bs w =
        (Inr \<lparr>Data = map (\<lambda>s. Some (V1Alpha1ProposerSlashingToV1 bs s))
                      (PendingProposerSlashings bs (SlashingsPool w) hs True)\<rparr>,
         w\<lparr>ChainInfoFetcher := c',
           calls := calls w @ HeadStateCall # PendingProposerSlashingsCall hs True #
             map V1Alpha1ProposerSlashingToV1Call
               (PendingProposerSlashings bs (SlashingsPool w) hs True)\<rparr>) \<and>
      filter is_Insert (calls_made w (snd (ListPoolProposerSlashings bs w))) = [] \<and>
      filter is_Verify (calls_made w (snd (ListPoolProposerSlashings bs w))) = []) \<and>
   (HeadState bs (ChainInfoFetcher w) = (Inr hs, c') \<longrightarrow>
      ListPoolVoluntaryExits bs w =
        (Inr \<lparr>Data = map (\<lambda>s. Some (V1Alpha1ExitToV1 bs s))
                      (PendingExits bs (VoluntaryExitsPool w) hs (Slot bs hs) True)\<rparr>,
         w\<lparr>ChainInfoFetcher := c',
           calls := calls w @ HeadStateCall # PendingExitsCall hs (Slot bs hs) True #
             map V1Alpha1ExitToV1Call
               (PendingExits bs (VoluntaryExitsPool w) hs (Slot bs hs) True)\<rparr>) \<and>
      filter is_Insert (calls_made w (snd (ListPoolVoluntaryExits bs w))) = [] \<and>
      filter is_Verify (calls_made w (snd (ListPoolVoluntaryExits bs w))) = [])"
  by (simp add: handler_defs call_defs calls_made_def range_loop_make filter_map_none)

text \<open>On the instance, with two attester slashings, one proposer slashing and two exits pending.\<close>

theorem list_witness:
  "HeadState mock_server (ChainInfoFetcher (mock_world [4, 9] ([103, 101], [201]) True False)) =
     (Inr 4, [9]) \<and>
   PendingAttesterSlashings mock_server ([103, 101], [201]) 4 True = [103, 101] \<and>
   ListPoolAttesterSlashings mock_server (mock_world [4, 9] ([103, 101], [201]) True False) =
     (Inr \<lparr>Data = [Some 3, Some 1]\<rparr>,
      \<lparr>ChainInfoFetcher = [9], SlashingsPool = ([103, 101], [201]), VoluntaryExitsPool = [],
         Broadcaster = (True, []), DisableBroadcastSlashings = False,
         calls = [HeadStateCall, PendingAttesterSlashingsCall 4 True,
                  V1Alpha1AttSlashingToV1Call 103, V1Alpha1AttSlashingToV1Call 101]\<rparr>) \<and>
   PendingProposerSlashings mock_server ([103, 101], [201]) 4 True = [201] \<and>
   ListPoolProposerSlashings mock_server (mock_world [4, 9] ([103, 101], [201]) True False) =
     (Inr \<lparr>Data = [Some 1]\<rparr>,
      \<lparr>ChainInfoFetcher = [9], SlashingsPool = ([103, 101], [201]), VoluntaryExitsPool = [],
         Broadcaster = (True, []), DisableBroadcastSlashings = False,
         calls = [HeadStateCall, PendingProposerSlashingsCall 4 True,
                  V1Alpha1ProposerSlashingToV1Call 201]\<rparr>) \<and>
   ListPoolVoluntaryExits mock_server
       ((mock_world [4, 9] ([103, 101], [201]) True False)
          \<lparr>VoluntaryExitsPool := [(0, 2, [1]), (0, 3, [7])]\<rparr>) =
     (Inr \<lparr>Data = [Some (mock_exit_request 2 [1]), Some (mock_exit_request 3 [7])]\<rparr>,
      \<lparr>ChainInfoFetcher = [9], SlashingsPool = ([103, 101], [201]),
         VoluntaryExitsPool = [(0, 2, [1]), (0, 3, [7])],
         Broadcaster = (True, []), DisableBroadcastSlashings = False,
         calls = [HeadStateCall, PendingExitsCall 4 4 True,
                  V1Alpha1ExitToV1Call (0, 2, [1]), V1Alpha1ExitToV1Call (0, 3, [7])]\<rparr>)"
  using list_returns_translated_pending
    [where bs = mock_server and w = "mock_world [4, 9] ([103, 101], [201]) True False"
       and hs = 4 and c' = "[9]"]
    list_returns_translated_pending
    [where bs = mock_server
       and w = "(mock_world [4, 9] ([103, 101], [201]) True False)
                  \<lparr>VoluntaryExitsPool := [(0, 2, [1]), (0, 3, [7])]\<rparr>"
       and hs = 4 and c' = "[9]"]
  by (simp add: mock_defs)

subsection \<open>The validator lookup of SubmitVoluntaryExit\<close>

text \<open>
  Claim C7. When the lookup of the exit's validator index in the fetched head state
  returns an error, SubmitVoluntaryExit returns the status
  \<open>Could not get exiting validator: ...\<close> with that error. The fetch and the lookup are
  the only calls made: the request is not translated, nothing is verified, inserted or
  broadcast, and the exits pool and the broadcaster are as they were.
\<close>

theorem unknown_validator_index_fails_before_translation:
  assumes "HeadState bs (ChainInfoFetcher w) = (Inr hs, c')"
    and "Exit xreq = Some exit"
    and "ValidatorAtIndexReadOnly bs hs (ValidatorIndex exit) = Inl err"
  shows
    "SubmitVoluntaryExit bs xreq w =
       (Inl (Status Internal (''Could not get exiting validator: '' @ err)),
        w\<lparr>ChainInfoFetcher := c',
          calls := calls w @ [HeadStateCall,
            ValidatorAtIndexReadOnlyCall hs (ValidatorIndex exit)]\<rparr>) \<and>
     V1ExitToV1Alpha1Call xreq \<notin> set (calls_made w (snd (SubmitVoluntaryExit bs xreq w))) \<and>
     filter is_Verify (calls_made w (snd (SubmitVoluntaryExit bs xreq w))) = [] \<and>
     filter is_Insert (calls_made w (snd (SubmitVoluntaryExit bs xreq w))) = [] \<and>
     filter is_Broadcast (calls_made w (snd (SubmitVoluntaryExit bs xreq w))) = [] \<and>
     VoluntaryExitsPool (snd (SubmitVoluntaryExit bs xreq w)) = VoluntaryExitsPool w \<and>
     Broadcaster (snd (SubmitVoluntaryExit bs xreq w)) = Broadcaster w"
  using assms by (simp add: SubmitVoluntaryExit_def call_defs calls_made_def)

text \<open>On the instance: validator 7 is not in the registry of size 4.\<close>

theorem unknown_validator_index_witness:
  "HeadState mock_server (ChainInfoFetcher (mock_world [4, 9] ([], []) True False)) = (Inr 4, [9]) \<and>
   Exit (mock_exit_request 7 [1]) = Some \<lparr>Epoch = 0, ValidatorIndex = 7\<rparr> \<and>
   ValidatorAtIndexReadOnly mock_server 4 7 = Inl ''index out of range'' \<and>
   SubmitVoluntaryExit mock_server (mock_exit_request 7 [1]) (mock_world [4, 9] ([], []) True False) =
     (Inl (Status Internal ''Could not get exiting validator: index out of range''),
      \<lparr>ChainInfoFetcher = [9], SlashingsPool = ([], []), VoluntaryExitsPool = [],
         Broadcaster = (True, []), DisableBroadcastSlashings = False,
         calls = [HeadStateCall, ValidatorAtIndexReadOnlyCall 4 7]\<rparr>)"
  using unknown_validator_index_fails_before_translation
    [where bs = mock_server and w = "mock_world [4, 9] ([], []) True False" and hs = 4
       and c' = "[9]" and xreq = "mock_exit_request 7 [1]"
       and exit = "\<lparr>Epoch = 0, ValidatorIndex = 7\<rparr>" and err = "''index out of range''"]
  by (simp add: mock_defs)

subsection \<open>Failure of the insertion\<close>

text \<open>
  \<open>InsertVoluntaryExit\<close> returns nothing, so SubmitVoluntaryExit cannot tell whether the
  exit was admitted. On the instance whose exits pool admits nothing: the pool is as
  empty after the insertion call as before, yet the handler goes on to broadcast the
  exit and returns the acknowledgment.
\<close>

theorem exit_insertion_failure_not_surfaced_counterexample:
  "SubmitVoluntaryExit refusing_exits_server (mock_exit_request 2 [1])
       (mock_world [4, 9] ([], []) True False) =
     (Inr (),
      \<lparr>ChainInfoFetcher = [9], SlashingsPool = ([], []), VoluntaryExitsPool = [],
         Broadcaster = (True, [SignedVoluntaryExitMsg (mock_exit_request 2 [1])]),
         DisableBroadcastSlashings = False,
         calls = [HeadStateCall, ValidatorAtIndexReadOnlyCall 4 2,
                  V1ExitToV1Alpha1Call (mock_exit_request 2 [1]),
                  VerifyExitAndSignatureCall 2 4 0 (0, 2, [1]) [],
                  InsertVoluntaryExitCall 4 (0, 2, [1]),
                  BroadcastCall (SignedVoluntaryExitMsg (mock_exit_request 2 [1]))]\<rparr>)"
  by (simp add: mock_defs handler_defs call_defs)

text \<open>
  Claim C8, as it holds of the code. When the insertion of a verified attester or
  proposer slashing returns an error, the handler returns the status \<open>Could not insert ... into pool: ...\<close>
  with that error. The insertion is the last call made: there is no broadcast, the
  broadcaster is as it was, and nothing is undone, the pool being left as the failed
  insertion returned it. The insertion of a voluntary exit has no result the handler
  could consult: once the verification has passed, the exit is inserted, the request is
  broadcast, and the handler returns the acknowledgment or, when the broadcast fails,
  the status \<open>Could not broadcast voluntary exit object: ...\<close>; what it returns is the
  same for any other insertion function \<open>ins\<close> and any other exits pool \<open>p\<close>.
\<close>

theorem insertion_failure_surfaced_for_slashings_unseen_for_exits:
  "(HeadState bs (ChainInfoFetcher w) = (Inr hs, c') \<and>
    VerifyAttesterSlashing bs hs (V1AttSlashingToV1Alpha1 bs areq) = None \<and>
    InsertAttesterSlashing bs (SlashingsPool w) hs (V1AttSlashingToV1Alpha1 bs areq) =
      (Some aerr, ap') \<longrightarrow>
      SubmitAttesterSlashing bs areq w =
        (Inl (Status Internal (''Could not insert attester slashing into pool: '' @ aerr)),
         w\<lparr>ChainInfoFetcher := c', SlashingsPool := ap',
           calls := calls w @ [HeadStateCall, V1AttSlashingToV1Alpha1Call areq,
             VerifyAttesterSlashingCall hs (V1AttSlashingToV1Alpha1 bs areq),
             InsertAttesterSlashingCall hs (V1AttSlashingToV1Alpha1 bs areq)]\<rparr>) \<and>
      filter is_Broadcast (calls_made w (snd (SubmitAttesterSlashing bs areq w))) = [] \<and>
      Broadcaster (snd (SubmitAttesterSlashing bs areq w)) = Broadcaster w) \<and>
   (HeadState bs (ChainInfoFetcher w) = (Inr hs, c') \<and>
    VerifyProposerSlashing bs hs (V1ProposerSlashingToV1Alpha1 bs preq) = None \<and>
    InsertProposerSlashing bs (SlashingsPool w) hs (V1ProposerSlashingToV1Alpha1 bs preq) =
      (Some perr, pp') \<longrightarrow>
      SubmitProposerSlashing bs preq w =
        (Inl (Status Internal (''Could not insert proposer slashing into pool: '' @ perr)),
         w\<lparr>ChainInfoFetcher := c', SlashingsPool := pp',
           calls := calls w @ [HeadStateCall, V1ProposerSlashingToV1Alpha1Call preq,
             VerifyProposerSlashingCall hs (V1ProposerSlashingToV1Alpha1 bs preq),
             InsertProposerSlashingCall hs (V1ProposerSlashingToV1Alpha1 bs preq)]\<rparr>) \<and>
      filter is_Broadcast (calls_made w (snd (SubmitProposerSlashing bs preq w))) = [] \<and>
      Broadcaster (snd (SubmitProposerSlashing bs preq w)) = Broadcaster w) \<and>
   (HeadState bs (ChainInfoFetcher w) = (Inr hs, c') \<and>
    Exit xreq = Some exit \<and>
    ValidatorAtIndexReadOnly bs hs (ValidatorIndex exit) = Inr validator \<and>
    VerifyExitAndSignature bs validator (Slot bs hs) (Fork bs hs) (V1ExitToV1Alpha1 bs xreq)
      (GenesisValidatorRoot bs hs) = None \<longrightarrow>
      SubmitVoluntaryExit bs xreq w =
        ((case fst (Broadcast bs (Broadcaster w) (SignedVoluntaryExitMsg xreq)) of
            None \<Rightarrow> Inr ()
          | Some err \<Rightarrow>
              Inl (Status Internal (''Could not broadcast voluntary exit object: '' @ err))),
         w\<lparr>ChainInfoFetcher := c',
           VoluntaryExitsPool :=
             InsertVoluntaryExit bs (VoluntaryExitsPool w) hs (V1ExitToV1Alpha1 bs xreq),
           Broadcaster := snd (Broadcast bs (Broadcaster w) (SignedVoluntaryExitMsg xreq)),
           calls := calls w @ [HeadStateCall,
             ValidatorAtIndexReadOnlyCall hs (ValidatorIndex exit), V1ExitToV1Alpha1Call xreq,
             VerifyExitAndSignatureCall validator (Slot bs hs) (Fork bs hs)
               (V1ExitToV1Alpha1 bs xreq) (GenesisValidatorRoot bs hs),
             InsertVoluntaryExitCall hs (V1ExitToV1Alpha1 bs xreq),
             BroadcastCall (SignedVoluntaryExitMsg xreq)]\<rparr>)) \<and>
   fst (SubmitVoluntaryExit (bs\<lparr>InsertVoluntaryExit := ins\<rparr>) xreq (w\<lparr>VoluntaryExitsPool := p\<rparr>)) =
     fst (SubmitVoluntaryExit bs xreq w)"
  (is "?a \<and> ?p \<and> ?x \<and> ?indep")
proof -
  have a: ?a
    by (simp add: SubmitAttesterSlashing_def call_defs calls_made_def)
  have p: ?p
    by (simp add: SubmitProposerSlashing_def call_defs calls_made_def)
  have x: ?x
    by (simp add: SubmitVoluntaryExit_def call_defs split_beta split: option.splits)
  have indep: ?indep
    by (simp add: SubmitVoluntaryExit_def call_defs split_beta split: sum.splits option.splits)
  from a p x indep show ?thesis
    by (intro conjI) (simp_all only:)
qed

text \<open>
  On the instance, whose slashings pool refuses the slashings it already holds; the exit
  is accepted, also with an exits pool that admits nothing.
\<close>

theorem insertion_failure_witness:
  "HeadState mock_server (ChainInfoFetcher (mock_world [4, 9] ([103], [201]) True False)) =
     (Inr 4, [9]) \<and>
   VerifyAttesterSlashing mock_server 4 (V1AttSlashingToV1Alpha1 mock_server 3) = None \<and>
   InsertAttesterSlashing mock_server (SlashingsPool (mock_world [4, 9] ([103], [201]) True False)) 4
     (V1AttSlashingToV1Alpha1 mock_server 3) = (Some ''duplicate'', ([103], [201])) \<and>
   SubmitAttesterSlashing mock_server 3 (mock_world [4, 9] ([103], [201]) True False) =
     (Inl (Status Internal ''Could not insert attester slashing into pool: duplicate''),
      \<lparr>ChainInfoFetcher = [9], SlashingsPool = ([103], [201]), VoluntaryExitsPool = [],
         Broadcaster = (True, []), DisableBroadcastSlashings = False,
         calls = [HeadStateCall, V1AttSlashingToV1Alpha1Call 3, VerifyAttesterSlashingCall 4 103,
                  InsertAttesterSlashingCall 4 103]\<rparr>) \<and>
   VerifyProposerSlashing mock_server 4 (V1ProposerSlashingToV1Alpha1 mock_server 1) = None \<and>
   InsertProposerSlashing mock_server (SlashingsPool (mock_world [4, 9] ([103], [201]) True False)) 4
     (V1ProposerSlashingToV1Alpha1 mock_server 1) = (Some ''duplicate'', ([103], [201])) \<and>
   SubmitProposerSlashing mock_server 1 (mock_world [4, 9] ([103], [201]) True False) =
     (Inl (Status Internal ''Could not insert proposer slashing into pool: duplicate''),
      \<lparr>ChainInfoFetcher = [9], SlashingsPool = ([103], [201]), VoluntaryExitsPool = [],
         Broadcaster = (True, []), DisableBroadcastSlashings = False,
         calls = [HeadStateCall, V1ProposerSlashingToV1Alpha1Call 1, VerifyProposerSlashingCall 4 201,
                  InsertProposerSlashingCall 4 201]\<rparr>) \<and>
   Exit (mock_exit_request 2 [1]) = Some \<lparr>Epoch = 0, ValidatorIndex = 2\<rparr> \<and>
   ValidatorAtIndexReadOnly mock_server 4 2 = Inr 2 \<and>
   VerifyExitAndSignature mock_server 2 (Slot mock_server 4) (Fork mock_server 4)
     (V1ExitToV1Alpha1 mock_server (mock_exit_request 2 [1])) (GenesisValidatorRoot mock_server 4) =
     None \<and>
   SubmitVoluntaryExit mock_server (mock_exit_request 2 [1])
       (mock_world [4, 9] ([103], [201]) True False) =
     (Inr (),
      \<lparr>ChainInfoFetcher = [9], SlashingsPool = ([103], [201]), VoluntaryExitsPool = [(0, 2, [1])],
         Broadcaster = (True, [SignedVoluntaryExitMsg (mock_exit_request 2 [1])]),
         DisableBroadcastSlashings = False,
         calls = [HeadStateCall, ValidatorAtIndexReadOnlyCall 4 2,
                  V1ExitToV1Alpha1Call (mock_exit_request 2 [1]),
                  VerifyExitAndSignatureCall 2 4 0 (0, 2, [1]) [],
                  InsertVoluntaryExitCall 4 (0, 2, [1]),
                  BroadcastCall (SignedVoluntaryExitMsg (mock_exit_request 2 [1]))]\<rparr>) \<and>
   fst (SubmitVoluntaryExit (mock_server\<lparr>InsertVoluntaryExit := (\<lambda>exits st x. exits)\<rparr>)
          (mock_exit_request 2 [1])
          ((mock_world [4, 9] ([103], [201]) True False)\<lparr>VoluntaryExitsPool := [(0, 7, [])]\<rparr>)) =
     Inr ()"
  using insertion_failure_surfaced_for_slashings_unseen_for_exits
    [where bs = mock_server and w = "mock_world [4, 9] ([103], [201]) True False" and hs = 4
       and c' = "[9]" and areq = 3 and aerr = "''duplicate''" and ap' = "([103], [201])"
       and preq = 1 and perr = "''duplicate''" and pp' = "([103], [201])"
       and xreq = "mock_exit_request 2 [1]" and exit = "\<lparr>Epoch = 0, ValidatorIndex = 2\<rparr>"
       and validator = 2 and ins = "\<lambda>exits st x. exits" and p = "[(0, 7, [])]"]
  by (simp add: mock_defs handler_defs call_defs)

subsection \<open>The failure points of SubmitVoluntaryExit\<close>

text \<open>
  On a request that carries an \<open>Exit\<close>, the handler returns the acknowledgment or fails
  at the fetch of the head state, at the lookup of the validator, at the verification
  or at the broadcast, with the error of that collaborator.
\<close>

lemma exit_failure_points_with_Exit:
  "Exit xreq = Some exit \<Longrightarrow>
   fst (SubmitVoluntaryExit bs xreq w) = Inr () \<or>
   (\<exists>err. fst (HeadState bs (ChainInfoFetcher w)) = Inl err \<and>
      fst (SubmitVoluntaryExit bs xreq w) =
        Inl (Status Internal (''Could not get head state: '' @ err))) \<or>
   (\<exists>hs err. fst (HeadState bs (ChainInfoFetcher w)) = Inr hs \<and>
      ValidatorAtIndexReadOnly bs hs (ValidatorIndex exit) = Inl err \<and>
      fst (SubmitVoluntaryExit bs xreq w) =
        Inl (Status Internal (''Could not get exiting validator: '' @ err))) \<or>
   (\<exists>hs validator err.
      fst (HeadState bs (ChainInfoFetcher w)) = Inr hs \<and>
      ValidatorAtIndexReadOnly bs hs (ValidatorIndex exit) = Inr validator \<and>
      VerifyExitAndSignature bs validator (Slot bs hs) (Fork bs hs) (V1ExitToV1Alpha1 bs xreq)
        (GenesisValidatorRoot bs hs) = Some err \<and>
      fst (SubmitVoluntaryExit bs xreq w) =
        Inl (Status Internal (''Invalid voluntary exit: '' @ err))) \<or>
   (\<exists>err. fst (Broadcast bs (Broadcaster w) (SignedVoluntaryExitMsg xreq)) = Some err \<and>
      fst (SubmitVoluntaryExit bs xreq w) =
        Inl (Status Internal (''Could not broadcast voluntary exit object: '' @ err)))"
  by (auto simp add: SubmitVoluntaryExit_def call_defs split_beta
      split: sum.splits option.splits)

text \<open>
  Claim C9. The four failure points of the claim are not all there are. A request
  without \<open>Exit\<close>, which the handler can receive, makes it panic with a nil pointer
  dereference while it reads \<open>req.Exit.ValidatorIndex\<close> (pool.go, line 167): the head
  state was fetched without error, the lookup is never called, and nothing is verified,
  inserted or broadcast. Evaluated on the instance, with head 4 available and the link
  up.
\<close>

theorem exit_request_without_Exit_panics:
  "HeadState mock_server (ChainInfoFetcher (mock_world [4, 9] ([], []) True False)) = (Inr 4, [9]) \<and>
   Exit mock_empty_request = None \<and>
   SubmitVoluntaryExit mock_server mock_empty_request (mock_world [4, 9] ([], []) True False) =
     (Inl NilPointerDereference,
      \<lparr>ChainInfoFetcher = [9], SlashingsPool = ([], []), VoluntaryExitsPool = [],
         Broadcaster = (True, []), DisableBroadcastSlashings = False,
         calls = [HeadStateCall]\<rparr>)"
  by (simp add: mock_defs handler_defs call_defs)

subsection \<open>What is inserted and what is broadcast\<close>

text \<open>
  Claim C10. The one insertion call of a Submit carries the translation of the request
  by the migration function of its kind, and the pool is the result of inserting that
  translation; the one broadcast call carries the request itself, as it arrived, and the
  broadcaster is the result of broadcasting it.
\<close>

theorem pool_gets_translation_network_gets_request:
  "(HeadState bs (ChainInfoFetcher w) = (Inr hs, c') \<and>
    VerifyAttesterSlashing bs hs (V1AttSlashingToV1Alpha1 bs areq) = None \<longrightarrow>
      filter is_Insert (calls_made w (snd (SubmitAttesterSlashing bs areq w))) =
        [InsertAttesterSlashingCall hs (V1AttSlashingToV1Alpha1 bs areq)] \<and>
      SlashingsPool (snd (SubmitAttesterSlashing bs areq w)) =
        snd (InsertAttesterSlashing bs (SlashingsPool w) hs (V1AttSlashingToV1Alpha1 bs areq)) \<and>
      (fst (InsertAttesterSlashing bs (SlashingsPool w) hs (V1AttSlashingToV1Alpha1 bs areq)) = None \<and>
       \<not> DisableBroadcastSlashings w \<longrightarrow>
         filter is_Broadcast (calls_made w (snd (SubmitAttesterSlashing bs areq w))) =
           [BroadcastCall (AttesterSlashingMsg areq)] \<and>
         Broadcaster (snd (SubmitAttesterSlashing bs areq w)) =
           snd (Broadcast bs (Broadcaster w) (AttesterSlashingMsg areq)))) \<and>
   (HeadState bs (ChainInfoFetcher w) = (Inr hs, c') \<and>
    VerifyProposerSlashing bs hs (V1ProposerSlashingToV1Alpha1 bs preq) = None \<longrightarrow>
      filter is_Insert (calls_made w (snd (SubmitProposerSlashing bs preq w))) =
        [InsertProposerSlashingCall hs (V1ProposerSlashingToV1Alpha1 bs preq)] \<and>
      SlashingsPool (snd (SubmitProposerSlashing bs preq w)) =
        snd (InsertProposerSlashing bs (SlashingsPool w) hs (V1ProposerSlashingToV1Alpha1 bs preq)) \<and>
      (fst (InsertProposerSlashing bs (SlashingsPool w) hs (V1ProposerSlashingToV1Alpha1 bs preq)) = None \<and>
       \<not> DisableBroadcastSlashings w \<longrightarrow>
         filter is_Broadcast (calls_made w (snd (SubmitProposerSlashing bs preq w))) =
           [BroadcastCall (ProposerSlashingMsg preq)] \<and>
         Broadcaster (snd (SubmitProposerSlashing bs preq w)) =
           snd (Broadcast bs (Broadcaster w) (ProposerSlashingMsg preq)))) \<and>
   (HeadState bs (ChainInfoFetcher w) = (Inr hs, c') \<and>
    Exit xreq = Some exit \<and>
    ValidatorAtIndexReadOnly bs hs (ValidatorIndex exit) = Inr validator \<and>
    VerifyExitAndSignature bs validator (Slot bs hs) (Fork bs hs) (V1ExitToV1Alpha1 bs xreq)
      (GenesisValidatorRoot bs hs) = None \<longrightarrow>
      filter is_Insert (calls_made w (snd (SubmitVoluntaryExit bs xreq w))) =
        [InsertVoluntaryExitCall hs (V1ExitToV1Alpha1 bs xreq)] \<and>
      VoluntaryExitsPool (snd (SubmitVoluntaryExit bs xreq w)) =
        InsertVoluntaryExit bs (VoluntaryExitsPool w) hs (V1ExitToV1Alpha1 bs xreq) \<and>
      filter is_Broadcast (calls_made w (snd (SubmitVoluntaryExit bs xreq w))) =
        [BroadcastCall (SignedVoluntaryExitMsg xreq)] \<and>
      Broadcaster (snd (SubmitVoluntaryExit bs xreq w)) =
        snd (Broadcast bs (Broadcaster w) (SignedVoluntaryExitMsg xreq)))"
  (is "?a \<and> ?p \<and> ?x")
proof -
  have a: ?a
    by (simp add: SubmitAttesterSlashing_def call_defs calls_made_def split_beta
        split: option.splits)
  have p: ?p
    by (simp add: SubmitProposerSlashing_def call_defs calls_made_def split_beta
        split: option.splits)
  have x: ?x
    by (simp add: SubmitVoluntaryExit_def call_defs calls_made_def split_beta
        split: option.splits)
  from a p x show ?thesis
    by (intro conjI) (simp_all only:)
qed

text \<open>
  On the instance, whose translations add an offset: slashing 3 is inserted as 103 and
  broadcast as 3.
\<close>

theorem pool_gets_translation_witness:
  "HeadState mock_server (ChainInfoFetcher (mock_world [4, 9] ([], []) True False)) = (Inr 4, [9]) \<and>
   \<not> DisableBroadcastSlashings (mock_world [4, 9] ([], []) True False) \<and>
   VerifyAttesterSlashing mock_server 4 (V1AttSlashingToV1Alpha1 mock_server 3) = None \<and>
   fst (InsertAttesterSlashing mock_server (SlashingsPool (mock_world [4, 9] ([], []) True False)) 4
          (V1AttSlashingToV1Alpha1 mock_server 3)) = None \<and>
   V1AttSlashingToV1Alpha1 mock_server 3 = 103 \<and>
   filter is_Insert (calls_made (mock_world [4, 9] ([], []) True False)
       (snd (SubmitAttesterSlashing mock_server 3 (mock_world [4, 9] ([], []) True False)))) =
     [InsertAttesterSlashingCall 4 103] \<and>
   SlashingsPool (snd (SubmitAttesterSlashing mock_server 3 (mock_world [4, 9] ([], []) True False))) =
     ([103], []) \<and>
   filter is_Broadcast (calls_made (mock_world [4, 9] ([], []) True False)
       (snd (SubmitAttesterSlashing mock_server 3 (mock_world [4, 9] ([], []) True False)))) =
     [BroadcastCall (AttesterSlashingMsg 3)] \<and>
   Broadcaster (snd (SubmitAttesterSlashing mock_server 3 (mock_world [4, 9] ([], []) True False))) =
     (True, [AttesterSlashingMsg 3]) \<and>
   VerifyProposerSlashing mock_server 4 (V1ProposerSlashingToV1Alpha1 mock_server 1) = None \<and>
   fst (InsertProposerSlashing mock_server (SlashingsPool (mock_world [4, 9] ([], []) True False)) 4
          (V1ProposerSlashingToV1Alpha1 mock_server 1)) = None \<and>
   V1ProposerSlashingToV1Alpha1 mock_server 1 = 201 \<and>
   filter is_Insert (calls_made (mock_world [4, 9] ([], []) True False)
       (snd (SubmitProposerSlashing mock_server 1 (mock_world [4, 9] ([], []) True False)))) =
     [InsertProposerSlashingCall 4 201] \<and>
   SlashingsPool (snd (SubmitProposerSlashing mock_server 1 (mock_world [4, 9] ([], []) True False))) =
     ([], [201]) \<and>
   filter is_Broadcast (calls_made (mock_world [4, 9] ([], []) True False)
       (snd (SubmitProposerSlashing mock_server 1 (mock_world [4, 9] ([], []) True False)))) =
     [BroadcastCall (ProposerSlashingMsg 1)] \<and>
   Broadcaster (snd (SubmitProposerSlashing mock_server 1 (mock_world [4, 9] ([], []) True False))) =
     (True, [ProposerSlashingMsg 1]) \<and>
   Exit (mock_exit_request 2 [1]) = Some \<lparr>Epoch = 0, ValidatorIndex = 2\<rparr> \<and>
   ValidatorAtIndexReadOnly mock_server 4 2 = Inr 2 \<and>
   VerifyExitAndSignature mock_server 2 (Slot mock_server 4) (Fork mock_server 4)
     (V1ExitToV1Alpha1 mock_server (mock_exit_request 2 [1])) (GenesisValidatorRoot mock_server 4) =
     None \<and>
   V1ExitToV1Alpha1 mock_server (mock_exit_request 2 [1]) = (0, 2, [1]) \<and>
   filter is_Insert (calls_made (mock_world [4, 9] ([], []) True False)
       (snd (SubmitVoluntaryExit mock_server (mock_exit_request 2 [1])
               (mock_world [4, 9] ([], []) True False)))) =
     [InsertVoluntaryExitCall 4 (0, 2, [1])] \<and>
   VoluntaryExitsPool (snd (SubmitVoluntaryExit mock_server (mock_exit_request 2 [1])
                              (mock_world [4, 9] ([], []) True False))) = [(0, 2, [1])] \<and>
   filter is_Broadcast (calls_made (mock_world [4, 9] ([], []) True False)
       (snd (SubmitVoluntaryExit mock_server (mock_exit_request 2 [1])
               (mock_world [4, 9] ([], []) True False)))) =
     [BroadcastCall (SignedVoluntaryExitMsg (mock_exit_request 2 [1]))] \<and>
   Broadcaster (snd (SubmitVoluntaryExit mock_server (mock_exit_request 2 [1])
                       (mock_world [4, 9] ([], []) True False))) =
     (True, [SignedVoluntaryExitMsg (mock_exit_request 2 [1])])"
  using pool_gets_translation_network_gets_request
    [where bs = mock_server and w = "mock_world [4, 9] ([], []) True False" and hs = 4
       and c' = "[9]" and areq = 3 and preq = 1
       and xreq = "mock_exit_request 2 [1]" and exit = "\<lparr>Epoch = 0, ValidatorIndex = 2\<rparr>"
       and validator = 2]
  by (simp add: mock_defs handler_defs call_defs calls_made_def)

end
